theory Spec2Isabelle
  imports Complex_Main
begin

section \<open>Values of the host language\<close>

text \<open>
  The webhook payload is decoded JSON, so a field that TypeScript declares as
  \<^verbatim>\<open>number | null | undefined\<close> can hold any value at run time; the converter's guard
  tests for that. A number is a double: a finite value, NaN or one of the two
  infinities. A finite value is given as the rational it denotes; every double is one,
  fractional ones included.
\<close>

datatype jsnum = Fin rat | NaN | PosInf | NegInf

datatype jsval = JUndefined | JNull | JBool bool | JNumber jsnum | JString string | JObject

text \<open>ToBoolean: the falsy values are undefined, null, false, 0, NaN and the empty string.\<close>

fun truthy :: "jsval \<Rightarrow> bool" where
  "truthy JUndefined = False"
| "truthy JNull = False"
| "truthy (JBool b) = b"
| "truthy (JNumber (Fin x)) = (x \<noteq> 0)"
| "truthy (JNumber NaN) = False"
| "truthy (JNumber PosInf) = True"
| "truthy (JNumber NegInf) = True"
| "truthy (JString s) = (s \<noteq> [])"
| "truthy JObject = True"

text \<open>\<^verbatim>\<open>typeof v === 'number'\<close>, returning the number when it is one.\<close>

fun asNumber :: "jsval \<Rightarrow> jsnum option" where
  "asNumber (JNumber x) = Some x"
| "asNumber _ = None"

fun isNaN :: "jsnum \<Rightarrow> bool" where
  "isNaN NaN = True"
| "isNaN _ = False"

text \<open>An exception is an \<^verbatim>\<open>Error\<close> object; only its message is ever read.\<close>

datatype error = Error (message: string)

text \<open>
  A \<^verbatim>\<open>Date\<close> is a time value in whole milliseconds since the epoch. The constructor
  accepts a number up to 8.64e15 in magnitude, which it truncates towards zero, and
  yields an invalid date for every other number; on an invalid date
  \<^verbatim>\<open>toISOString()\<close> throws a RangeError.
\<close>

datatype date = Date (millis: int)

definition maxTimeValue :: int where
  "maxTimeValue = 8640000000000000"

definition toIntegerOrInfinity :: "rat \<Rightarrow> int" where
  "toIntegerOrInfinity x = (if 0 \<le> x then \<lfloor>x\<rfloor> else \<lceil>x\<rceil>)"

fun newDate :: "jsnum \<Rightarrow> date option" where
  "newDate (Fin ms) =
     (if \<bar>ms\<bar> \<le> of_int maxTimeValue then Some (Date (toIntegerOrInfinity ms)) else None)"
| "newDate _ = None"

section \<open>Strings\<close>

text \<open>
  \<^verbatim>\<open>toUpperCase\<close> on the ASCII letters; every other character is kept. Currency codes
  are ASCII.
\<close>

definition upperChar :: "char \<Rightarrow> char" where
  "upperChar c =
     (case map_of (zip ''abcdefghijklmnopqrstuvwxyz'' ''ABCDEFGHIJKLMNOPQRSTUVWXYZ'') c of
        Some u \<Rightarrow> u
      | None \<Rightarrow> c)"

definition toUpperCase :: "string \<Rightarrow> string" where
  "toUpperCase s = map upperChar s"

text \<open>\<^verbatim>\<open>a || b\<close> on strings: the empty string is falsy.\<close>

definition orElse :: "string \<Rightarrow> string \<Rightarrow> string" where
  "orElse a b = (if a \<noteq> [] then a else b)"

text \<open>\<^verbatim>\<open>s.includes(t)\<close>.\<close>

definition startsWith :: "string \<Rightarrow> string \<Rightarrow> bool" where
  "startsWith s t = (take (length t) s = t)"

fun includesStr :: "string \<Rightarrow> string \<Rightarrow> bool" where
  "includesStr [] t = (t = [])"
| "includesStr (c # cs) t = (startsWith (c # cs) t \<or> includesStr cs t)"

text \<open>
  The character classes \<^verbatim>\<open>\s\<close> and \<^verbatim>\<open>\w\<close> of a regular expression, on ASCII:
  tab, line feed, vertical tab, form feed, carriage return and space; letters, digits
  and the underscore.
\<close>

definition isSpace :: "char \<Rightarrow> bool" where
  "isSpace c = (c \<in> set [CHR 0x09, CHR 0x0A, CHR 0x0B, CHR 0x0C, CHR 0x0D, CHR 0x20])"

definition isWord :: "char \<Rightarrow> bool" where
  "isWord c =
     (c \<in> set ''abcdefghijklmnopqrstuvwxyzABCDEFGHIJKLMNOPQRSTUVWXYZ0123456789_'')"

text \<open>
  \<^verbatim>\<open>msg.match(/event\.id:\s*(\w+)/)?.[1]\<close>: the leftmost position where the literal
  \<^verbatim>\<open>event.id:\<close> is followed, after any white space, by at least one word character;
  the result is the longest run of word characters there. White space and word
  characters are disjoint, so no backtracking inside one position changes the outcome.
\<close>

definition matchHere :: "string \<Rightarrow> string option" where
  "matchHere s =
     (if startsWith s ''event.id:'' then
        (let w = takeWhile isWord (dropWhile isSpace (drop 9 s))
         in if w = [] then None else Some w)
      else None)"

fun matchEventId :: "string \<Rightarrow> string option" where
  "matchEventId [] = None"
| "matchEventId (c # cs) =
     (case matchHere (c # cs) of Some w \<Rightarrow> Some w | None \<Rightarrow> matchEventId cs)"

section \<open>References to other Stripe objects\<close>

text \<open>
  A field such as \<^verbatim>\<open>invoice.customer\<close> is null, the id of the object, or the expanded
  object itself (of which only the id is read).
\<close>

datatype expandable = Absent | Id string | Expanded string

fun truthyRef :: "expandable \<Rightarrow> bool" where
  "truthyRef Absent = False"
| "truthyRef (Id s) = (s \<noteq> [])"
| "truthyRef (Expanded i) = True"

text \<open>
  \<^verbatim>\<open>typeof x === 'string' ? x : x.id\<close>. Null is not a string, and reading \<^verbatim>\<open>id\<close> from
  it is a TypeError; the handlers that test the reference first never get there.
\<close>

fun refId :: "expandable \<Rightarrow> error + string" where
  "refId (Id s) = Inr s"
| "refId (Expanded i) = Inr i"
| "refId Absent = Inl (Error ''Cannot read properties of null (reading id)'')"

text \<open>\<^verbatim>\<open>x && typeof x === 'string'\<close>, returning the id string.\<close>

fun truthyIdString :: "expandable \<Rightarrow> string option" where
  "truthyIdString (Id s) = (if s \<noteq> [] then Some s else None)"
| "truthyIdString _ = None"

text \<open>\<^verbatim>\<open>a || b\<close> on references.\<close>

definition orRef :: "expandable \<Rightarrow> expandable \<Rightarrow> expandable" where
  "orRef a b = (if truthyRef a then a else b)"

section \<open>Entities and the stores\<close>

datatype TransactionStatus = TS_COMPLETED | TS_FAILED | TS_CANCELLED | TS_REFUNDED

datatype TransactionType = PAYMENT | SUBSCRIPTION | REFUND

datatype WebhookProcessingStatus = PENDING | COMPLETED | FAILED | RETRYING

datatype SubscriptionStatus = TRIALING | ACTIVE | PAST_DUE | CANCELED | UNPAID | INCOMPLETE

text \<open>
  Modelled from the spec: the entity classes (UserEntity, PaymentMethodEntity,
  StripeTransactionEntity, WebhookEventEntity, UserSubscriptionEntity) are imported by
  the service but are not among the sources. The records hold the columns the service
  assigns or reads; the free-text description and the opaque metadata and rawPayload
  columns, which no handler reads back, are left out. A column the service does not
  assign on insert is null, and \<^verbatim>\<open>failedPaymentCount\<close> starts at zero.
\<close>

record UserEntity =
  u_id :: string
  u_stripeCustomerId :: "string option"

record PaymentMethodEntity =
  pm_userId :: string
  pm_stripePaymentMethodId :: string
  pm_type :: string
  pm_last4 :: string
  pm_brand :: string
  pm_expMonth :: int
  pm_expYear :: int
  pm_isDefault :: bool

record StripeTransactionEntity =
  tx_userId :: string
  tx_stripePaymentIntentId :: expandable
  tx_transactionType :: TransactionType
  tx_amount :: rat
  tx_currency :: string
  tx_status :: TransactionStatus
  tx_failureReason :: "string option"
  tx_stripeFee :: "rat option"
  tx_netAmount :: "rat option"
  tx_processedAt :: "date option"

record WebhookEventEntity =
  we_stripeEventId :: string
  we_eventType :: string
  we_processingStatus :: WebhookProcessingStatus
  we_retryCount :: nat
  we_processedAt :: "date option"
  we_errorMessage :: "string option"

record UserSubscriptionEntity =
  s_userId :: string
  s_stripeSubscriptionId :: string
  s_status :: SubscriptionStatus
  s_planId :: "string option"
  s_planName :: string
  s_amount :: rat
  s_currency :: string
  s_interval :: string
  s_intervalCount :: int
  s_currentPeriodStart :: "date option"
  s_currentPeriodEnd :: "date option"
  s_trialStartDate :: "date option"
  s_trialEndDate :: "date option"
  s_failedPaymentCount :: nat
  s_canceledAt :: "date option"
  s_endedAt :: "date option"

text \<open>
  The five repositories. A table is the list of its rows in insertion order; a row is
  identified by its position, which stands for the primary key.
\<close>

record store =
  users :: "UserEntity list"
  paymentMethods :: "PaymentMethodEntity list"
  transactions :: "StripeTransactionEntity list"
  webhookEvents :: "WebhookEventEntity list"
  subscriptions :: "UserSubscriptionEntity list"

datatype repo = Users | PaymentMethods | Transactions | WebhookEvents | Subscriptions

section \<open>What the service reads from outside\<close>

text \<open>The payment intent as \<^verbatim>\<open>stripe.paymentIntents.retrieve\<close> returns it.\<close>

datatype balance_transaction = NoBalance | BalanceId string | BalanceObj (bt_fee: int) (bt_net: int)

datatype latest_charge = NoCharge | ChargeId string | ChargeObj balance_transaction

record payment_error =
  pe_message :: "string option"
  pe_code :: "string option"

record retrieved_payment_intent =
  r_latest_charge :: latest_charge
  r_last_payment_error :: "payment_error option"

text \<open>
  The environment of one webhook delivery:
  \<^item> \<open>loggingEnabled\<close>: \<^verbatim>\<open>process.env.STRIPE_WEBHOOK_LOGGING_ENABLED === 'true'\<close>;
  \<^item> \<open>now\<close>: what \<^verbatim>\<open>new Date()\<close> reads during the delivery;
  \<^item> \<open>dbFault\<close>: the message with which every call on a repository rejects, if the
    repository is failing;
  \<^item> \<open>uniqueStripeEventId\<close>: whether the table of webhook events rejects a second row
    with the same \<^verbatim>\<open>stripeEventId\<close> (the entity class, not among the sources, decides);
  \<^item> \<open>retrievePaymentIntent\<close>: the answer of the Stripe API to a retrieve of the given
    payment intent, the flag telling whether \<^verbatim>\<open>latest_charge\<close> was asked expanded;
  \<^item> \<open>roundDouble\<close>: the rounding of floating-point arithmetic, which gives for the
    exact result of an operation the double that the operation returns (the exact
    result itself where that is a double, as for a product of whole numbers below
    \<open>2^53\<close>). No property of it is assumed.
\<close>

record env =
  loggingEnabled :: bool
  now :: date
  dbFault :: "repo \<Rightarrow> string option"
  uniqueStripeEventId :: bool
  retrievePaymentIntent :: "string \<Rightarrow> bool \<Rightarrow> error + retrieved_payment_intent"
  roundDouble :: "rat \<Rightarrow> rat"

section \<open>Timestamp conversion\<close>

text \<open>
  \<^verbatim>\<open>timestamp * 1000\<close> is a floating-point product: the exact product rounded to a
  double by the environment's \<open>roundDouble\<close>. NaN and the infinities stay what they
  are.
\<close>

fun times1000 :: "env \<Rightarrow> jsnum \<Rightarrow> jsnum" where
  "times1000 e (Fin x) = Fin (roundDouble e (x * 1000))"
| "times1000 e x = x"

text \<open>
  \<^verbatim>\<open>convertStripeTimestamp\<close>: the guard returns null for a falsy value, a value that is
  not a number, and NaN. Otherwise the date at \<^verbatim>\<open>timestamp * 1000\<close> is built, and the
  debug line that follows formats it with \<^verbatim>\<open>toISOString()\<close> before returning it, so an
  invalid date leaves the function as a RangeError.
\<close>

definition convertStripeTimestamp :: "env \<Rightarrow> jsval \<Rightarrow> error + date option" where
  "convertStripeTimestamp e timestamp =
     (if \<not> truthy timestamp then Inr None
      else case asNumber timestamp of
        None \<Rightarrow> Inr None
      | Some x \<Rightarrow>
          if isNaN x then Inr None
          else (case newDate (times1000 e x) of
                  None \<Rightarrow> Inl (Error ''Invalid time value'')
                | Some d \<Rightarrow> Inr (Some d)))"

text \<open>\<^verbatim>\<open>findOne\<close>: the first row that matches, with its position.\<close>

fun findRow :: "('a \<Rightarrow> bool) \<Rightarrow> 'a list \<Rightarrow> (nat \<times> 'a) option" where
  "findRow P [] = None"
| "findRow P (x # xs) =
     (if P x then Some (0, x)
      else (case findRow P xs of None \<Rightarrow> None | Some (i, y) \<Rightarrow> Some (Suc i, y)))"

definition findUser :: "env \<Rightarrow> store \<Rightarrow> expandable \<Rightarrow> error + UserEntity option" where
  "findUser e st customer =
     (case refId customer of
        Inl err \<Rightarrow> Inl err
      | Inr customerId \<Rightarrow>
          (case dbFault e Users of
             Some m \<Rightarrow> Inl (Error m)
           | None \<Rightarrow> Inr (find (\<lambda>u. u_stripeCustomerId u = Some customerId) (users st))))"

definition findSubscription ::
  "env \<Rightarrow> store \<Rightarrow> string \<Rightarrow> error + (nat \<times> UserSubscriptionEntity) option" where
  "findSubscription e st sid =
     (case dbFault e Subscriptions of
        Some m \<Rightarrow> Inl (Error m)
      | None \<Rightarrow> Inr (findRow (\<lambda>s. s_stripeSubscriptionId s = sid) (subscriptions st)))"

text \<open>\<^verbatim>\<open>save\<close> of a row that was read from the table writes it back in place.\<close>

definition saveSubscription ::
  "env \<Rightarrow> nat \<Rightarrow> UserSubscriptionEntity \<Rightarrow> store \<Rightarrow> store \<times> error option" where
  "saveSubscription e i row st =
     (case dbFault e Subscriptions of
        Some m \<Rightarrow> (st, Some (Error m))
      | None \<Rightarrow> (st\<lparr>subscriptions := (subscriptions st)[i := row]\<rparr>, None))"

text \<open>\<^verbatim>\<open>save\<close> of a new entity appends a row.\<close>

definition insertSubscription ::
  "env \<Rightarrow> UserSubscriptionEntity \<Rightarrow> store \<Rightarrow> store \<times> error option" where
  "insertSubscription e row st =
     (case dbFault e Subscriptions of
        Some m \<Rightarrow> (st, Some (Error m))
      | None \<Rightarrow> (st\<lparr>subscriptions := subscriptions st @ [row]\<rparr>, None))"

section \<open>Recording payment methods, transactions and webhook events\<close>

definition savePaymentMethod ::
  "env \<Rightarrow> string \<Rightarrow> string \<Rightarrow> string \<Rightarrow> string \<Rightarrow> string \<Rightarrow> int \<Rightarrow> int \<Rightarrow> store
     \<Rightarrow> store \<times> error option" where
  "savePaymentMethod e userId stripePaymentMethodId type last4 brand expMonth expYear st =
     (case dbFault e PaymentMethods of
        Some m \<Rightarrow> (st, Some (Error m))
      | None \<Rightarrow>
          (st\<lparr>paymentMethods := paymentMethods st @
               [\<lparr>pm_userId = userId, pm_stripePaymentMethodId = stripePaymentMethodId,
                 pm_type = type, pm_last4 = last4, pm_brand = brand,
                 pm_expMonth = expMonth, pm_expYear = expYear, pm_isDefault = False\<rparr>]\<rparr>,
           None))"

text \<open>
  \<^verbatim>\<open>recordTransaction\<close>: the amount is stored as it is passed; the currency is
  upper-cased. The \<^verbatim>\<open>catch\<close> logs and rethrows.
\<close>

definition recordTransaction ::
  "env \<Rightarrow> string \<Rightarrow> expandable \<Rightarrow> TransactionType \<Rightarrow> rat \<Rightarrow> string \<Rightarrow> TransactionStatus
     \<Rightarrow> string option \<Rightarrow> rat option \<Rightarrow> rat option \<Rightarrow> date option \<Rightarrow> store
     \<Rightarrow> store \<times> error option" where
  "recordTransaction e userId stripePaymentIntentId type amount currency status
       failureReason stripeFee netAmount processedAt st =
     (let transaction =
            \<lparr>tx_userId = userId, tx_stripePaymentIntentId = stripePaymentIntentId,
             tx_transactionType = type, tx_amount = amount,
             tx_currency = toUpperCase currency, tx_status = status,
             tx_failureReason = failureReason, tx_stripeFee = stripeFee,
             tx_netAmount = netAmount, tx_processedAt = processedAt\<rparr>
      in case dbFault e Transactions of
           Some m \<Rightarrow> (st, Some (Error m))
         | None \<Rightarrow> (st\<lparr>transactions := transactions st @ [transaction]\<rparr>, None))"

text \<open>
  \<^verbatim>\<open>logWebhookEvent\<close>: null when logging is disabled; otherwise a new PENDING row with
  \<^verbatim>\<open>retryCount\<close> 0 is saved and returned. No existing row is looked up. Where the table
  has a unique \<^verbatim>\<open>stripeEventId\<close>, saving a second row for an id is the store's
  duplicate-key error.
\<close>

definition duplicateKey :: error where
  "duplicateKey = Error ''duplicate key value violates unique constraint''"

definition logWebhookEvent ::
  "env \<Rightarrow> string \<Rightarrow> string \<Rightarrow> store \<Rightarrow> store \<times> (error + WebhookEventEntity option)" where
  "logWebhookEvent e stripeEventId eventType st =
     (if \<not> loggingEnabled e then (st, Inr None)
      else
        (let webhookEvent =
               \<lparr>we_stripeEventId = stripeEventId, we_eventType = eventType,
                we_processingStatus = PENDING, we_retryCount = 0,
                we_processedAt = None, we_errorMessage = None\<rparr>
         in case dbFault e WebhookEvents of
              Some m \<Rightarrow> (st, Inl (Error m))
            | None \<Rightarrow>
                if uniqueStripeEventId e
                   \<and> stripeEventId \<in> set (map we_stripeEventId (webhookEvents st))
                then (st, Inl duplicateKey)
                else (st\<lparr>webhookEvents := webhookEvents st @ [webhookEvent]\<rparr>,
                      Inr (Some webhookEvent))))"

text \<open>
  \<^verbatim>\<open>updateWebhookEventStatus\<close>: nothing when logging is disabled. Otherwise, for FAILED
  and RETRYING, \<^verbatim>\<open>retryCount\<close> is incremented on the rows of the event id; then the
  status is written to those rows, with \<^verbatim>\<open>processedAt\<close> for COMPLETED. An
  \<^verbatim>\<open>errorMessage\<close> that was not passed is \<^verbatim>\<open>undefined\<close> in the update set, which
  leaves the column as it is.
\<close>

definition updateRows :: "('a \<Rightarrow> bool) \<Rightarrow> ('a \<Rightarrow> 'a) \<Rightarrow> 'a list \<Rightarrow> 'a list" where
  "updateRows P f rows = map (\<lambda>r. if P r then f r else r) rows"

definition updateWebhookEventStatus ::
  "env \<Rightarrow> string \<Rightarrow> WebhookProcessingStatus \<Rightarrow> string option \<Rightarrow> store
     \<Rightarrow> store \<times> error option" where
  "updateWebhookEventStatus e eventId status errorMessage st =
     (if \<not> loggingEnabled e then (st, None)
      else case dbFault e WebhookEvents of
        Some m \<Rightarrow> (st, Some (Error m))
      | None \<Rightarrow>
          (let incremented =
                 (if status = FAILED \<or> status = RETRYING
                  then updateRows (\<lambda>r. we_stripeEventId r = eventId)
                         (\<lambda>r. r\<lparr>we_retryCount := we_retryCount r + 1\<rparr>) (webhookEvents st)
                  else webhookEvents st);
               updated =
                 updateRows (\<lambda>r. we_stripeEventId r = eventId)
                   (\<lambda>r. r\<lparr>we_processingStatus := status,
                           we_errorMessage :=
                             (case errorMessage of None \<Rightarrow> we_errorMessage r
                              | Some m \<Rightarrow> Some m),
                           we_processedAt :=
                             (if status = COMPLETED then Some (now e)
                              else we_processedAt r)\<rparr>)
                   incremented
           in (st\<lparr>webhookEvents := updated\<rparr>, None)))"

section \<open>Event payloads\<close>

record checkout_session =
  cs_id :: string
  cs_customer :: expandable
  cs_payment_intent :: expandable
  cs_subscription :: expandable
  cs_mode :: string
  cs_amount_total :: "int option"
  cs_currency :: "string option"

record invoice =
  inv_id :: string
  inv_customer :: expandable
  inv_subscription :: expandable
  inv_payment_intent :: expandable
  inv_amount_paid :: "int option"
  inv_amount_due :: int
  inv_currency :: string
  inv_period_start :: jsval
  inv_period_end :: jsval

record payment_intent =
  pi_id :: string
  pi_customer :: expandable
  pi_invoice :: expandable
  pi_amount :: int
  pi_currency :: string

record card =
  card_last4 :: string
  card_brand :: string
  card_exp_month :: int
  card_exp_year :: int

record payment_method =
  pmo_id :: string
  pmo_customer :: expandable
  pmo_type :: string
  pmo_card :: "card option"

record refund =
  refund_amount :: int

record charge =
  ch_id :: string
  ch_customer :: expandable
  ch_payment_intent :: expandable
  ch_refunds :: "refund list"
  ch_amount_refunded :: int
  ch_currency :: string

datatype product = NoProduct | ProductId string | ProductObj (prod_name: "string option") (prod_id: "string option")

record recurring =
  rec_interval :: string
  rec_interval_count :: int

record price =
  price_id :: string
  price_nickname :: "string option"
  price_product :: product
  price_unit_amount :: "int option"
  price_currency :: string
  price_recurring :: "recurring option"

record subscription_item =
  item_price :: price
  item_current_period_start :: jsval
  item_current_period_end :: jsval

record subscription =
  sub_id :: string
  sub_customer :: expandable
  sub_status :: string
  sub_items :: "subscription_item list"
  sub_billing_cycle_anchor :: jsval
  sub_created :: jsval
  sub_trial_start :: jsval
  sub_trial_end :: jsval
  sub_canceled_at :: jsval
  sub_ended_at :: jsval

section \<open>Handlers that record transactions\<close>

text \<open>\<^verbatim>\<open>n || 0\<close> on an amount that may be null.\<close>

fun orZero :: "int option \<Rightarrow> int" where
  "orZero None = 0"
| "orZero (Some n) = n"

text \<open>Minor units to major units: \<^verbatim>\<open>cents / 100\<close>.\<close>

definition toMajor :: "int \<Rightarrow> rat" where
  "toMajor cents = of_int cents / 100"

text \<open>
  \<^verbatim>\<open>handleCheckoutSessionCompleted\<close>. The amount passed on is
  \<^verbatim>\<open>session.amount_total || 0\<close>, as the session carries it.
\<close>

definition handleCheckoutSessionCompleted ::
  "env \<Rightarrow> checkout_session \<Rightarrow> store \<Rightarrow> store \<times> error option" where
  "handleCheckoutSessionCompleted e session st =
     (if truthyRef (cs_customer session) then
        (case findUser e st (cs_customer session) of
           Inl err \<Rightarrow> (st, Some err)
         | Inr None \<Rightarrow> (st, None)
         | Inr (Some user) \<Rightarrow>
             recordTransaction e (u_id user)
               (orRef (cs_payment_intent session)
                  (orRef (cs_subscription session) (Id (cs_id session))))
               (if cs_mode session = ''subscription'' then SUBSCRIPTION else PAYMENT)
               (of_int (orZero (cs_amount_total session)))
               (case cs_currency session of None \<Rightarrow> ''usd'' | Some c \<Rightarrow> orElse c ''usd'')
               TS_COMPLETED None None None None st)
      else (st, None))"

text \<open>
  The fee and the net amount, as both success handlers resolve them: the defaults are
  zero and the gross amount; they are replaced when the retrieved payment intent has
  an expanded latest charge with an expanded balance transaction. A failing retrieve
  is logged and keeps the defaults.
\<close>

definition feeDetails :: "env \<Rightarrow> string \<Rightarrow> rat \<Rightarrow> rat \<times> rat" where
  "feeDetails e paymentIntentId gross =
     (case retrievePaymentIntent e paymentIntentId True of
        Inl err \<Rightarrow> (0, gross)
      | Inr paymentIntent \<Rightarrow>
          (case r_latest_charge paymentIntent of
             ChargeObj (BalanceObj f n) \<Rightarrow> (toMajor f, toMajor n)
           | _ \<Rightarrow> (0, gross)))"

definition handleInvoicePaymentSucceeded ::
  "env \<Rightarrow> invoice \<Rightarrow> store \<Rightarrow> store \<times> error option" where
  "handleInvoicePaymentSucceeded e invoice st =
     (if truthyRef (inv_customer invoice) then
        (case findUser e st (inv_customer invoice) of
           Inl err \<Rightarrow> (st, Some err)
         | Inr None \<Rightarrow> (st, None)
         | Inr (Some user) \<Rightarrow>
             (let gross = toMajor (orZero (inv_amount_paid invoice));
                  (stripeFee, netAmount) =
                    (case truthyIdString (inv_payment_intent invoice) of
                       Some paymentIntentId \<Rightarrow> feeDetails e paymentIntentId gross
                     | None \<Rightarrow> (0, gross))
              in recordTransaction e (u_id user)
                   (orRef (inv_payment_intent invoice) (Id (inv_id invoice)))
                   SUBSCRIPTION gross (orElse (inv_currency invoice) ''usd'')
                   TS_COMPLETED None (Some stripeFee) (Some netAmount) (Some (now e)) st))
      else (st, None))"

definition handlePaymentMethodAttached ::
  "env \<Rightarrow> payment_method \<Rightarrow> store \<Rightarrow> store \<times> error option" where
  "handlePaymentMethodAttached e paymentMethod st =
     (if truthyRef (pmo_customer paymentMethod) then
        (case findUser e st (pmo_customer paymentMethod) of
           Inl err \<Rightarrow> (st, Some err)
         | Inr None \<Rightarrow> (st, None)
         | Inr (Some user) \<Rightarrow>
             (case pmo_card paymentMethod of
                None \<Rightarrow> (st, None)
              | Some c \<Rightarrow>
                  savePaymentMethod e (u_id user) (pmo_id paymentMethod)
                    (pmo_type paymentMethod) (card_last4 c) (card_brand c)
                    (card_exp_month c) (card_exp_year c) st))
      else (st, None))"

text \<open>
  \<^verbatim>\<open>handlePaymentIntentSucceeded\<close>: a payment intent with a truthy \<^verbatim>\<open>invoice\<close> is a
  subscription payment, which is left to the invoice handler.
\<close>

definition handlePaymentIntentSucceeded ::
  "env \<Rightarrow> payment_intent \<Rightarrow> store \<Rightarrow> store \<times> error option" where
  "handlePaymentIntentSucceeded e paymentIntent st =
     (if truthyRef (pi_customer paymentIntent) then
        (case findUser e st (pi_customer paymentIntent) of
           Inl err \<Rightarrow> (st, Some err)
         | Inr None \<Rightarrow> (st, None)
         | Inr (Some user) \<Rightarrow>
             (let isSubscriptionPayment = truthyRef (pi_invoice paymentIntent)
              in if \<not> isSubscriptionPayment then
                   (let gross = toMajor (pi_amount paymentIntent);
                        (stripeFee, netAmount) = feeDetails e (pi_id paymentIntent) gross
                    in recordTransaction e (u_id user) (Id (pi_id paymentIntent))
                         PAYMENT gross (pi_currency paymentIntent)
                         TS_COMPLETED None (Some stripeFee) (Some netAmount)
                         (Some (now e)) st)
                 else (st, None)))
      else (st, None))"

text \<open>
  \<^verbatim>\<open>handlePaymentIntentFailed\<close> and \<^verbatim>\<open>handlePaymentIntentCanceled\<close> differ in the
  status they record.
\<close>

definition recordPaymentIntent ::
  "TransactionStatus \<Rightarrow> env \<Rightarrow> payment_intent \<Rightarrow> store \<Rightarrow> store \<times> error option" where
  "recordPaymentIntent status e paymentIntent st =
     (if truthyRef (pi_customer paymentIntent) then
        (case findUser e st (pi_customer paymentIntent) of
           Inl err \<Rightarrow> (st, Some err)
         | Inr None \<Rightarrow> (st, None)
         | Inr (Some user) \<Rightarrow>
             recordTransaction e (u_id user) (Id (pi_id paymentIntent)) PAYMENT
               (toMajor (pi_amount paymentIntent)) (pi_currency paymentIntent)
               status None None None None st)
      else (st, None))"

definition handlePaymentIntentFailed ::
  "env \<Rightarrow> payment_intent \<Rightarrow> store \<Rightarrow> store \<times> error option" where
  "handlePaymentIntentFailed = recordPaymentIntent TS_FAILED"

definition handlePaymentIntentCanceled ::
  "env \<Rightarrow> payment_intent \<Rightarrow> store \<Rightarrow> store \<times> error option" where
  "handlePaymentIntentCanceled = recordPaymentIntent TS_CANCELLED"

definition handleChargeRefunded :: "env \<Rightarrow> charge \<Rightarrow> store \<Rightarrow> store \<times> error option" where
  "handleChargeRefunded e charge st =
     (if truthyRef (ch_customer charge) then
        (case findUser e st (ch_customer charge) of
           Inl err \<Rightarrow> (st, Some err)
         | Inr None \<Rightarrow> (st, None)
         | Inr (Some user) \<Rightarrow>
             (let refundAmount =
                    (case ch_refunds charge of
                       r # _ \<Rightarrow> toMajor (refund_amount r)
                     | [] \<Rightarrow> toMajor (ch_amount_refunded charge))
              in recordTransaction e (u_id user)
                   (orRef (ch_payment_intent charge) (Id (ch_id charge)))
                   REFUND refundAmount (ch_currency charge)
                   TS_REFUNDED None None None None st))
      else (st, None))"

text \<open>
  \<^verbatim>\<open>handleInvoicePaymentFailed\<close>: with the user found, the subscription of the invoice
  (if it is stored) gets its \<^verbatim>\<open>failedPaymentCount\<close> incremented, and is marked
  PAST_DUE when the count is then 1. The failure reason comes from the payment
  intent when it can be retrieved. The failed transaction is recorded last.
\<close>

definition failureReasonOf :: "env \<Rightarrow> expandable \<Rightarrow> string" where
  "failureReasonOf e payment_intent =
     (case truthyIdString payment_intent of
        None \<Rightarrow> ''Unknown failure reason''
      | Some paymentIntentId \<Rightarrow>
          (case retrievePaymentIntent e paymentIntentId False of
             Inl err \<Rightarrow> ''Unknown failure reason''
           | Inr paymentIntent \<Rightarrow>
               (case r_last_payment_error paymentIntent of
                  None \<Rightarrow> ''Unknown failure reason''
                | Some pe \<Rightarrow>
                    orElse (case pe_message pe of None \<Rightarrow> [] | Some m \<Rightarrow> m)
                      (orElse (case pe_code pe of None \<Rightarrow> [] | Some c \<Rightarrow> c)
                         ''Payment failed''))))"

definition markPaymentFailed ::
  "env \<Rightarrow> expandable \<Rightarrow> store \<Rightarrow> store \<times> error option" where
  "markPaymentFailed e subscriptionRef st =
     (if truthyRef subscriptionRef then
        (case refId subscriptionRef of
           Inl err \<Rightarrow> (st, Some err)
         | Inr subscriptionId \<Rightarrow>
             (case findSubscription e st subscriptionId of
                Inl err \<Rightarrow> (st, Some err)
              | Inr None \<Rightarrow> (st, None)
              | Inr (Some (i, subscription)) \<Rightarrow>
                  (let counted = subscription
                         \<lparr>s_failedPaymentCount := s_failedPaymentCount subscription + 1\<rparr>;
                       marked =
                         (if s_failedPaymentCount counted = 1
                          then counted\<lparr>s_status := PAST_DUE\<rparr> else counted)
                   in saveSubscription e i marked st)))
      else (st, None))"

definition handleInvoicePaymentFailed ::
  "env \<Rightarrow> invoice \<Rightarrow> store \<Rightarrow> store \<times> error option" where
  "handleInvoicePaymentFailed e invoice st =
     (if truthyRef (inv_customer invoice) then
        (case findUser e st (inv_customer invoice) of
           Inl err \<Rightarrow> (st, Some err)
         | Inr None \<Rightarrow> (st, None)
         | Inr (Some user) \<Rightarrow>
             (case markPaymentFailed e (inv_subscription invoice) st of
                (st1, Some err) \<Rightarrow> (st1, Some err)
              | (st1, None) \<Rightarrow>
                  recordTransaction e (u_id user) (inv_payment_intent invoice)
                    SUBSCRIPTION (toMajor (inv_amount_due invoice)) (inv_currency invoice)
                    TS_FAILED (Some (failureReasonOf e (inv_payment_intent invoice)))
                    None None None st1))
      else (st, None))"

text \<open>
  \<^verbatim>\<open>handleInvoiceUpcoming\<close> changes nothing; the log line it writes for a known user
  converts the two period timestamps.
\<close>

definition handleInvoiceUpcoming :: "env \<Rightarrow> invoice \<Rightarrow> store \<Rightarrow> store \<times> error option" where
  "handleInvoiceUpcoming e invoice st =
     (if truthyRef (inv_customer invoice) then
        (case findUser e st (inv_customer invoice) of
           Inl err \<Rightarrow> (st, Some err)
         | Inr None \<Rightarrow> (st, None)
         | Inr (Some user) \<Rightarrow>
             (case convertStripeTimestamp e (inv_period_start invoice) of
                Inl err \<Rightarrow> (st, Some err)
              | Inr periodStart \<Rightarrow>
                  (case convertStripeTimestamp e (inv_period_end invoice) of
                     Inl err \<Rightarrow> (st, Some err)
                   | Inr periodEnd \<Rightarrow> (st, None))))
      else (st, None))"

section \<open>Subscription handlers\<close>

fun mapStripeSubscriptionStatus :: "string \<Rightarrow> SubscriptionStatus" where
  "mapStripeSubscriptionStatus status =
     (if status = ''trialing'' then TRIALING
      else if status = ''active'' then ACTIVE
      else if status = ''past_due'' then PAST_DUE
      else if status = ''canceled'' then CANCELED
      else if status = ''unpaid'' then UNPAID
      else if status = ''incomplete'' then INCOMPLETE
      else ACTIVE)"

text \<open>\<^verbatim>\<open>subscription.items?.data?.[0]\<close>.\<close>

fun firstItem :: "subscription \<Rightarrow> subscription_item option" where
  "firstItem subscription =
     (case sub_items subscription of [] \<Rightarrow> None | item # _ \<Rightarrow> Some item)"

text \<open>
  The period dates, as the created and the updated handler both compute them. The
  branch is chosen by truthiness: the item's \<^verbatim>\<open>current_period_start\<close>, else
  \<^verbatim>\<open>billing_cycle_anchor\<close>, else \<^verbatim>\<open>created\<close>; the chosen value alone is converted.
\<close>

definition periodStartOf :: "env \<Rightarrow> subscription \<Rightarrow> error + date option" where
  "periodStartOf e subscription =
     (case firstItem subscription of
        Some item \<Rightarrow>
          if truthy (item_current_period_start item)
          then convertStripeTimestamp e (item_current_period_start item)
          else if truthy (sub_billing_cycle_anchor subscription)
          then convertStripeTimestamp e (sub_billing_cycle_anchor subscription)
          else convertStripeTimestamp e (sub_created subscription)
      | None \<Rightarrow>
          if truthy (sub_billing_cycle_anchor subscription)
          then convertStripeTimestamp e (sub_billing_cycle_anchor subscription)
          else convertStripeTimestamp e (sub_created subscription))"

definition periodEndOf :: "env \<Rightarrow> subscription \<Rightarrow> error + date option" where
  "periodEndOf e subscription =
     (case firstItem subscription of
        Some item \<Rightarrow>
          if truthy (item_current_period_end item)
          then convertStripeTimestamp e (item_current_period_end item)
          else Inr None
      | None \<Rightarrow> Inr None)"

definition planNameOf :: "price option \<Rightarrow> string" where
  "planNameOf p =
     orElse
       (case p of
          None \<Rightarrow> []
        | Some pr \<Rightarrow>
            (case price_nickname pr of
               Some n \<Rightarrow> if n \<noteq> [] then n else
                 (case price_product pr of
                    NoProduct \<Rightarrow> []
                  | ProductId i \<Rightarrow> i
                  | ProductObj nm i \<Rightarrow>
                      orElse (case nm of None \<Rightarrow> [] | Some x \<Rightarrow> x)
                        (orElse (case i of None \<Rightarrow> [] | Some x \<Rightarrow> x) ''Unknown Plan''))
             | None \<Rightarrow>
                 (case price_product pr of
                    NoProduct \<Rightarrow> []
                  | ProductId i \<Rightarrow> i
                  | ProductObj nm i \<Rightarrow>
                      orElse (case nm of None \<Rightarrow> [] | Some x \<Rightarrow> x)
                        (orElse (case i of None \<Rightarrow> [] | Some x \<Rightarrow> x) ''Unknown Plan''))))
       ''Unknown Plan''"

definition handleSubscriptionCreated ::
  "env \<Rightarrow> subscription \<Rightarrow> store \<Rightarrow> store \<times> error option" where
  "handleSubscriptionCreated e subscription st =
     (case findUser e st (sub_customer subscription) of
        Inl err \<Rightarrow> (st, Some err)
      | Inr None \<Rightarrow> (st, None)
      | Inr (Some user) \<Rightarrow>
          (let p = map_option item_price (firstItem subscription)
           in case periodStartOf e subscription of
                Inl err \<Rightarrow> (st, Some err)
              | Inr periodStart \<Rightarrow>
           (case periodEndOf e subscription of
                Inl err \<Rightarrow> (st, Some err)
              | Inr periodEnd \<Rightarrow>
           (case convertStripeTimestamp e (sub_trial_start subscription) of
                Inl err \<Rightarrow> (st, Some err)
              | Inr trialStart \<Rightarrow>
           (case convertStripeTimestamp e (sub_trial_end subscription) of
                Inl err \<Rightarrow> (st, Some err)
              | Inr trialEnd \<Rightarrow>
                  insertSubscription e
                    \<lparr>s_userId = u_id user,
                     s_stripeSubscriptionId = sub_id subscription,
                     s_status = mapStripeSubscriptionStatus (sub_status subscription),
                     s_planId = map_option price_id p,
                     s_planName = planNameOf p,
                     s_amount =
                       (case p of None \<Rightarrow> 0
                        | Some pr \<Rightarrow> toMajor (orZero (price_unit_amount pr))),
                     s_currency =
                       (case p of None \<Rightarrow> ''usd''
                        | Some pr \<Rightarrow> orElse (price_currency pr) ''usd''),
                     s_interval =
                       (case p of None \<Rightarrow> ''month''
                        | Some pr \<Rightarrow>
                            (case price_recurring pr of None \<Rightarrow> ''month''
                             | Some r \<Rightarrow> orElse (rec_interval r) ''month'')),
                     s_intervalCount =
                       (case p of None \<Rightarrow> 1
                        | Some pr \<Rightarrow>
                            (case price_recurring pr of None \<Rightarrow> 1
                             | Some r \<Rightarrow>
                                 if rec_interval_count r \<noteq> 0 then rec_interval_count r
                                 else 1)),
                     s_currentPeriodStart = periodStart,
                     s_currentPeriodEnd = periodEnd,
                     s_trialStartDate =
                       (if trialStart \<noteq> None \<and> trialEnd \<noteq> None then trialStart else None),
                     s_trialEndDate =
                       (if trialStart \<noteq> None \<and> trialEnd \<noteq> None then trialEnd else None),
                     s_failedPaymentCount = 0,
                     s_canceledAt = None,
                     s_endedAt = None\<rparr> st)))))"

text \<open>\<^verbatim>\<open>if (d) entity.field = d\<close>: a null date leaves the column as it is.\<close>

fun orKeep :: "date option \<Rightarrow> date option \<Rightarrow> date option" where
  "orKeep (Some d) old = Some d"
| "orKeep None old = old"

text \<open>
  \<^verbatim>\<open>handleSubscriptionUpdated\<close>: the status of the stored row is overwritten with the
  mapped status of the event, whatever it was; \<^verbatim>\<open>failedPaymentCount\<close> is reset when
  the row was PAST_DUE and is now ACTIVE.
\<close>

definition handleSubscriptionUpdated ::
  "env \<Rightarrow> subscription \<Rightarrow> store \<Rightarrow> store \<times> error option" where
  "handleSubscriptionUpdated e subscription st =
     (case findSubscription e st (sub_id subscription) of
        Inl err \<Rightarrow> (st, Some err)
      | Inr None \<Rightarrow> (st, None)
      | Inr (Some (i, userSubscription)) \<Rightarrow>
          (let previousStatus = s_status userSubscription;
               newStatus = mapStripeSubscriptionStatus (sub_status subscription)
           in case periodStartOf e subscription of
                Inl err \<Rightarrow> (st, Some err)
              | Inr periodStart \<Rightarrow>
           (case periodEndOf e subscription of
                Inl err \<Rightarrow> (st, Some err)
              | Inr periodEnd \<Rightarrow>
           (case convertStripeTimestamp e (sub_canceled_at subscription) of
                Inl err \<Rightarrow> (st, Some err)
              | Inr canceledAt \<Rightarrow>
           (case convertStripeTimestamp e (sub_ended_at subscription) of
                Inl err \<Rightarrow> (st, Some err)
              | Inr endedAt \<Rightarrow>
                  saveSubscription e i
                    (userSubscription
                       \<lparr>s_status := newStatus,
                        s_currentPeriodStart :=
                          orKeep periodStart (s_currentPeriodStart userSubscription),
                        s_currentPeriodEnd :=
                          orKeep periodEnd (s_currentPeriodEnd userSubscription),
                        s_canceledAt := orKeep canceledAt (s_canceledAt userSubscription),
                        s_endedAt := orKeep endedAt (s_endedAt userSubscription),
                        s_failedPaymentCount :=
                          (if newStatus = ACTIVE \<and> previousStatus = PAST_DUE then 0
                           else s_failedPaymentCount userSubscription)\<rparr>) st)))))"

definition handleSubscriptionDeleted ::
  "env \<Rightarrow> subscription \<Rightarrow> store \<Rightarrow> store \<times> error option" where
  "handleSubscriptionDeleted e subscription st =
     (case findSubscription e st (sub_id subscription) of
        Inl err \<Rightarrow> (st, Some err)
      | Inr None \<Rightarrow> (st, None)
      | Inr (Some (i, userSubscription)) \<Rightarrow>
          saveSubscription e i
            (userSubscription
               \<lparr>s_status := CANCELED, s_canceledAt := Some (now e),
                s_endedAt := Some (now e)\<rparr>) st)"

definition handleSubscriptionTrialWillEnd ::
  "env \<Rightarrow> subscription \<Rightarrow> store \<Rightarrow> store \<times> error option" where
  "handleSubscriptionTrialWillEnd e subscription st =
     (case findUser e st (sub_customer subscription) of
        Inl err \<Rightarrow> (st, Some err)
      | Inr None \<Rightarrow> (st, None)
      | Inr (Some user) \<Rightarrow>
          (case findSubscription e st (sub_id subscription) of
             Inl err \<Rightarrow> (st, Some err)
           | Inr found \<Rightarrow> (st, None)))"

section \<open>The dispatcher\<close>

text \<open>
  A verified event is a discriminated union on its type: the payload has the shape
  that belongs to the type. Every type the switch does not list is \<open>Unhandled\<close>,
  with the type string, which is none of the listed ones.
\<close>

datatype event_data =
    CheckoutSessionCompleted checkout_session
  | InvoicePaymentSucceeded invoice
  | InvoicePaymentFailed invoice
  | InvoiceUpcoming invoice
  | PaymentMethodAttached payment_method
  | CustomerSubscriptionCreated subscription
  | CustomerSubscriptionUpdated subscription
  | CustomerSubscriptionDeleted subscription
  | CustomerSubscriptionTrialWillEnd subscription
  | PaymentIntentSucceeded payment_intent
  | PaymentIntentCreated payment_intent
  | PaymentIntentPaymentFailed payment_intent
  | PaymentIntentCanceled payment_intent
  | ChargeRefunded charge
  | Unhandled string

fun eventType :: "event_data \<Rightarrow> string" where
  "eventType (CheckoutSessionCompleted _) = ''checkout.session.completed''"
| "eventType (InvoicePaymentSucceeded _) = ''invoice.payment_succeeded''"
| "eventType (InvoicePaymentFailed _) = ''invoice.payment_failed''"
| "eventType (InvoiceUpcoming _) = ''invoice.upcoming''"
| "eventType (PaymentMethodAttached _) = ''payment_method.attached''"
| "eventType (CustomerSubscriptionCreated _) = ''customer.subscription.created''"
| "eventType (CustomerSubscriptionUpdated _) = ''customer.subscription.updated''"
| "eventType (CustomerSubscriptionDeleted _) = ''customer.subscription.deleted''"
| "eventType (CustomerSubscriptionTrialWillEnd _) = ''customer.subscription.trial_will_end''"
| "eventType (PaymentIntentSucceeded _) = ''payment_intent.succeeded''"
| "eventType (PaymentIntentCreated _) = ''payment_intent.created''"
| "eventType (PaymentIntentPaymentFailed _) = ''payment_intent.payment_failed''"
| "eventType (PaymentIntentCanceled _) = ''payment_intent.canceled''"
| "eventType (ChargeRefunded _) = ''charge.refunded''"
| "eventType (Unhandled t) = t"

record event =
  ev_id :: string
  ev_data :: event_data

text \<open>The \<^verbatim>\<open>switch\<close> of \<^verbatim>\<open>handleWebhookEvent\<close>.\<close>

fun dispatch :: "env \<Rightarrow> event_data \<Rightarrow> store \<Rightarrow> store \<times> error option" where
  "dispatch e (CheckoutSessionCompleted x) st = handleCheckoutSessionCompleted e x st"
| "dispatch e (InvoicePaymentSucceeded x) st = handleInvoicePaymentSucceeded e x st"
| "dispatch e (InvoicePaymentFailed x) st = handleInvoicePaymentFailed e x st"
| "dispatch e (InvoiceUpcoming x) st = handleInvoiceUpcoming e x st"
| "dispatch e (PaymentMethodAttached x) st = handlePaymentMethodAttached e x st"
| "dispatch e (CustomerSubscriptionCreated x) st = handleSubscriptionCreated e x st"
| "dispatch e (CustomerSubscriptionUpdated x) st = handleSubscriptionUpdated e x st"
| "dispatch e (CustomerSubscriptionDeleted x) st = handleSubscriptionDeleted e x st"
| "dispatch e (CustomerSubscriptionTrialWillEnd x) st = handleSubscriptionTrialWillEnd e x st"
| "dispatch e (PaymentIntentSucceeded x) st = handlePaymentIntentSucceeded e x st"
| "dispatch e (PaymentIntentCreated x) st = (st, None)"
| "dispatch e (PaymentIntentPaymentFailed x) st = handlePaymentIntentFailed e x st"
| "dispatch e (PaymentIntentCanceled x) st = handlePaymentIntentCanceled e x st"
| "dispatch e (ChargeRefunded x) st = handleChargeRefunded e x st"
| "dispatch e (Unhandled t) st = (st, None)"

text \<open>
  The \<^verbatim>\<open>catch\<close> block of \<^verbatim>\<open>handleWebhookEvent\<close>. The event is out of scope there, so
  the event id is looked for in the message of the error: when logging is enabled and
  the message contains \<^verbatim>\<open>event.id\<close> and matches \<^verbatim>\<open>/event\.id:\s*(\w+)/\<close>, the rows of
  the captured id are marked FAILED with the message; an error of that update is
  logged and dropped. The error that was caught is rethrown in every case.
\<close>

definition catchBlock :: "env \<Rightarrow> error \<Rightarrow> store \<Rightarrow> store \<times> error option" where
  "catchBlock e err st =
     (let st' =
            (if loggingEnabled e then
               (if message err \<noteq> [] \<and> includesStr (message err) ''event.id'' then
                  (case matchEventId (message err) of
                     Some eventId \<Rightarrow>
                       fst (updateWebhookEventStatus e eventId FAILED (Some (message err)) st)
                   | None \<Rightarrow> st)
                else st)
             else st)
      in (st', Some err))"

text \<open>
  \<^verbatim>\<open>handleWebhookEvent\<close>, from the outcome of \<^verbatim>\<open>constructEvent\<close> on: the event is
  logged, marked PENDING if a row was logged, dispatched, and marked COMPLETED if a
  row was logged. An error of any step goes to the \<^verbatim>\<open>catch\<close> block. The result is
  the store afterwards and the error thrown to the caller, if any.
\<close>

definition handleWebhookEvent ::
  "env \<Rightarrow> error + event \<Rightarrow> store \<Rightarrow> store \<times> error option" where
  "handleWebhookEvent e constructed st =
     (case constructed of
        Inl err \<Rightarrow> catchBlock e err st
      | Inr event \<Rightarrow>
          (case logWebhookEvent e (ev_id event) (eventType (ev_data event)) st of
             (st1, Inl err) \<Rightarrow> catchBlock e err st1
           | (st1, Inr loggedEvent) \<Rightarrow>
          (case (if loggedEvent \<noteq> None
                 then updateWebhookEventStatus e (ev_id event) PENDING None st1
                 else (st1, None)) of
             (st2, Some err) \<Rightarrow> catchBlock e err st2
           | (st2, None) \<Rightarrow>
          (case dispatch e (ev_data event) st2 of
             (st3, Some err) \<Rightarrow> catchBlock e err st3
           | (st3, None) \<Rightarrow>
          (case (if loggedEvent \<noteq> None
                 then updateWebhookEventStatus e (ev_id event) COMPLETED None st3
                 else (st3, None)) of
             (st4, Some err) \<Rightarrow> catchBlock e err st4
           | (st4, None) \<Rightarrow> (st4, None))))))"

section \<open>The notions the properties are stated with\<close>







text \<open>The converter returns on the value (it does not throw).\<close>

definition convertible :: "env \<Rightarrow> jsval \<Rightarrow> bool" where
  "convertible e v = (case convertStripeTimestamp e v of Inl err \<Rightarrow> False | Inr d \<Rightarrow> True)"


text \<open>The timestamps the updated handler may convert.\<close>

definition updateTimestamps :: "subscription \<Rightarrow> jsval list" where
  "updateTimestamps subscription =
     (case firstItem subscription of
        None \<Rightarrow> []
      | Some item \<Rightarrow> [item_current_period_start item, item_current_period_end item])
     @ [sub_billing_cycle_anchor subscription, sub_created subscription,
        sub_canceled_at subscription, sub_ended_at subscription]"

text \<open>The stored subscription of an external subscription id, as \<^verbatim>\<open>findOne\<close> reads it.\<close>

definition storedSubscription :: "store \<Rightarrow> string \<Rightarrow> (nat \<times> UserSubscriptionEntity) option" where
  "storedSubscription st sid =
     findRow (\<lambda>s. s_stripeSubscriptionId s = sid) (subscriptions st)"

text \<open>The local user of a Stripe customer id, as \<^verbatim>\<open>findOne\<close> reads it.\<close>

definition localUser :: "store \<Rightarrow> string \<Rightarrow> UserEntity option" where
  "localUser st customerId = find (\<lambda>u. u_stripeCustomerId u = Some customerId) (users st)"

text \<open>
  The settlement object of a payment intent: the expanded balance transaction of its
  expanded latest charge, when the retrieve succeeds and has both.
\<close>

definition settlement :: "env \<Rightarrow> string \<Rightarrow> (int \<times> int) option" where
  "settlement e paymentIntentId =
     (case retrievePaymentIntent e paymentIntentId True of
        Inr paymentIntent \<Rightarrow>
          (case r_latest_charge paymentIntent of
             ChargeObj (BalanceObj f n) \<Rightarrow> Some (f, n)
           | _ \<Rightarrow> None)
      | Inl err \<Rightarrow> None)"

text \<open>The settlement object an invoice handler can reach: through a payment intent id.\<close>

definition invoiceSettlement :: "env \<Rightarrow> invoice \<Rightarrow> (int \<times> int) option" where
  "invoiceSettlement e invoice =
     (case truthyIdString (inv_payment_intent invoice) of
        None \<Rightarrow> None
      | Some paymentIntentId \<Rightarrow> settlement e paymentIntentId)"

section \<open>Concrete inputs\<close>

text \<open>
  One user linked to customer \<^verbatim>\<open>cus_1\<close>, with one ACTIVE subscription \<^verbatim>\<open>sub_1\<close>;
  logging enabled, every repository working, no payment intent retrievable. The
  rounding is the identity: every product formed below is a double (a whole number
  below \<open>2^53\<close>, or 125/256).
\<close>

definition exampleEnv :: env where
  "exampleEnv =
     \<lparr>loggingEnabled = True, now = Date 1700000000000, dbFault = (\<lambda>r. None),
      uniqueStripeEventId = False,
      retrievePaymentIntent = (\<lambda>i expand. Inl (Error ''No such payment_intent'')),
      roundDouble = (\<lambda>x. x)\<rparr>"

definition exampleRow :: UserSubscriptionEntity where
  "exampleRow =
     \<lparr>s_userId = ''user_1'', s_stripeSubscriptionId = ''sub_1'', s_status = ACTIVE,
      s_planId = Some ''price_1'', s_planName = ''Basic'', s_amount = 99,
      s_currency = ''usd'', s_interval = ''month'', s_intervalCount = 1,
      s_currentPeriodStart = None, s_currentPeriodEnd = None,
      s_trialStartDate = None, s_trialEndDate = None, s_failedPaymentCount = 0,
      s_canceledAt = None, s_endedAt = None\<rparr>"

definition exampleStore :: store where
  "exampleStore =
     \<lparr>users = [\<lparr>u_id = ''user_1'', u_stripeCustomerId = Some ''cus_1''\<rparr>],
      paymentMethods = [], transactions = [], webhookEvents = [],
      subscriptions = [exampleRow]\<rparr>"

text \<open>An invoice of 5000 cents in \<^verbatim>\<open>usd\<close> for \<^verbatim>\<open>sub_1\<close>, and its payment-failed event.\<close>

definition exampleInvoice :: invoice where
  "exampleInvoice =
     \<lparr>inv_id = ''in_1'', inv_customer = Id ''cus_1'', inv_subscription = Id ''sub_1'',
      inv_payment_intent = Id ''pi_1'', inv_amount_paid = Some 5000, inv_amount_due = 5000,
      inv_currency = ''usd'', inv_period_start = JNumber (Fin 1700000000),
      inv_period_end = JNumber (Fin 1702592000)\<rparr>"

definition exampleEvent :: event where
  "exampleEvent = \<lparr>ev_id = ''evt_1'', ev_data = InvoicePaymentFailed exampleInvoice\<rparr>"

text \<open>The same store after the user was unlinked from the customer.\<close>

definition unlinkedStore :: store where
  "unlinkedStore = exampleStore\<lparr>users := [\<lparr>u_id = ''user_1'', u_stripeCustomerId = None\<rparr>]\<rparr>"

text \<open>The environment in which the transaction repository is failing.\<close>

definition failingEnv :: env where
  "failingEnv =
     exampleEnv\<lparr>dbFault := (\<lambda>r. if r = Transactions then Some ''connection lost'' else None)\<rparr>"

text \<open>The environment in which the table of webhook events has a unique event id.\<close>

definition uniqueEnv :: env where
  "uniqueEnv = exampleEnv\<lparr>uniqueStripeEventId := True\<rparr>"

text \<open>An environment in which \<^verbatim>\<open>pi_1\<close> is retrieved with fee 175 and net 4825 cents.\<close>

definition settledEnv :: env where
  "settledEnv =
     exampleEnv\<lparr>retrievePaymentIntent :=
       (\<lambda>i expand. Inr \<lparr>r_latest_charge = ChargeObj (BalanceObj 175 4825),
                          r_last_payment_error = None\<rparr>)\<rparr>"

text \<open>
  A subscription payload for \<^verbatim>\<open>sub_1\<close> with no item-level period and no billing
  anchor, only its creation time; and the same payload without any of the three.
\<close>

definition examplePrice :: price where
  "examplePrice =
     \<lparr>price_id = ''price_1'', price_nickname = Some ''Basic'', price_product = ProductId ''prod_1'',
      price_unit_amount = Some 9900, price_currency = ''usd'',
      price_recurring = Some \<lparr>rec_interval = ''month'', rec_interval_count = 1\<rparr>\<rparr>"

definition exampleSubscription :: subscription where
  "exampleSubscription =
     \<lparr>sub_id = ''sub_1'', sub_customer = Id ''cus_1'', sub_status = ''active'',
      sub_items = [\<lparr>item_price = examplePrice, item_current_period_start = JUndefined,
                    item_current_period_end = JUndefined\<rparr>],
      sub_billing_cycle_anchor = JNull, sub_created = JNumber (Fin 1700000000),
      sub_trial_start = JNull, sub_trial_end = JNull,
      sub_canceled_at = JNull, sub_ended_at = JNull\<rparr>"

definition undatedSubscription :: subscription where
  "undatedSubscription = exampleSubscription\<lparr>sub_created := JNull\<rparr>"






text \<open>A PAST_DUE row with two failed payments.\<close>

definition pastDueStore :: store where
  "pastDueStore =
     exampleStore\<lparr>subscriptions :=
       [exampleRow\<lparr>s_status := PAST_DUE, s_failedPaymentCount := 2\<rparr>]\<rparr>"

text \<open>
  The store after \<^verbatim>\<open>sub_1\<close> was deleted at the time of the clock, and an updated
  payload for it, without dates, whose status is \<^verbatim>\<open>canceled\<close>.
\<close>

definition canceledStore :: store where
  "canceledStore =
     exampleStore\<lparr>subscriptions :=
       [exampleRow\<lparr>s_status := CANCELED, s_canceledAt := Some (Date 1700000000000),
                   s_endedAt := Some (Date 1700000000000)\<rparr>]\<rparr>"

definition canceledUpdate :: subscription where
  "canceledUpdate = undatedSubscription\<lparr>sub_status := ''canceled''\<rparr>"

text \<open>The store after the payment-failed event was delivered once.\<close>

definition deliveredStore :: store where
  "deliveredStore = fst (handleWebhookEvent exampleEnv (Inr exampleEvent) exampleStore)"

text \<open>A checkout session of 5000 cents, and payment intents with and without an invoice.\<close>

definition exampleSession :: checkout_session where
  "exampleSession =
     \<lparr>cs_id = ''cs_1'', cs_customer = Id ''cus_1'', cs_payment_intent = Id ''pi_1'',
      cs_subscription = Absent, cs_mode = ''payment'', cs_amount_total = Some 5000,
      cs_currency = Some ''usd''\<rparr>"

definition invoicedPaymentIntent :: payment_intent where
  "invoicedPaymentIntent =
     \<lparr>pi_id = ''pi_1'', pi_customer = Id ''cus_1'', pi_invoice = Id ''in_1'',
      pi_amount = 5000, pi_currency = ''usd''\<rparr>"

definition plainPaymentIntent :: payment_intent where
  "plainPaymentIntent = invoicedPaymentIntent\<lparr>pi_invoice := Absent\<rparr>"

section \<open>Rows and their positions\<close>

lemma findRow_SomeD:
  "findRow P xs = Some (i, x) \<Longrightarrow> i < length xs \<and> xs ! i = x \<and> P x"
proof (induction xs arbitrary: i)
  case Nil
  then show ?case by simp
next
  case (Cons a xs)
  show ?case
  proof (cases "P a")
    case True
    with Cons.prems show ?thesis by simp
  next
    case False
    with Cons.prems obtain j where j: "findRow P xs = Some (j, x)" and i: "i = Suc j"
      by (auto split: option.splits)
    from Cons.IH [OF j] i show ?thesis by simp
  qed
qed

lemma findRow_update:
  "findRow P xs = Some (i, x) \<Longrightarrow> P y \<Longrightarrow> findRow P (xs[i := y]) = Some (i, y)"
proof (induction xs arbitrary: i)
  case Nil
  then show ?case by simp
next
  case (Cons a xs)
  show ?case
  proof (cases "P a")
    case True
    with Cons.prems show ?thesis by simp
  next
    case False
    with Cons.prems obtain j where j: "findRow P xs = Some (j, x)" and i: "i = Suc j"
      by (auto split: option.splits)
    from Cons.IH [OF j Cons.prems(2)] i False show ?thesis by simp
  qed
qed

section \<open>Properties of the timestamp converter\<close>








section \<open>The subscription state machine\<close>

lemma stored_position:
  "storedSubscription st sid = Some (i, row)
     \<Longrightarrow> i < length (subscriptions st) \<and> subscriptions st ! i = row
         \<and> s_stripeSubscriptionId row = sid"
  unfolding storedSubscription_def by (drule findRow_SomeD) simp

lemma stored_after_save:
  "storedSubscription st sid = Some (i, old) \<Longrightarrow> s_stripeSubscriptionId new = sid
     \<Longrightarrow> storedSubscription (st\<lparr>subscriptions := (subscriptions st)[i := new]\<rparr>) sid
           = Some (i, new)"
  unfolding storedSubscription_def by (simp add: findRow_update)

lemma convertible_cases: "convertible e v \<Longrightarrow> \<exists>d. convertStripeTimestamp e v = Inr d"
  by (simp add: convertible_def split: sum.splits)

lemma periodStartOf_returns:
  "\<forall>v \<in> set (updateTimestamps subscription). convertible e v
     \<Longrightarrow> \<exists>p. periodStartOf e subscription = Inr p"
  by (cases "sub_items subscription")
     (auto simp add: periodStartOf_def updateTimestamps_def dest: convertible_cases)

lemma periodEndOf_returns:
  "\<forall>v \<in> set (updateTimestamps subscription). convertible e v
     \<Longrightarrow> \<exists>p. periodEndOf e subscription = Inr p"
  by (cases "sub_items subscription")
     (auto simp add: periodEndOf_def updateTimestamps_def dest: convertible_cases)

text \<open>The updated handler, step by step, on a stored subscription.\<close>

lemma updated_throws_unchanged:
  "handleSubscriptionUpdated e ev st = (st', Some err) \<Longrightarrow> st' = st"
  by (auto simp add: handleSubscriptionUpdated_def saveSubscription_def Let_def
      simp del: firstItem.simps split: sum.splits option.splits)

lemma updated_returns:
  assumes stored: "storedSubscription st (sub_id ev) = Some (i, old)"
      and run: "handleSubscriptionUpdated e ev st = (st', None)"
  shows "st' = st\<lparr>subscriptions := (subscriptions st)[i := subscriptions st' ! i]\<rparr>
         \<and> s_stripeSubscriptionId (subscriptions st' ! i) = sub_id ev
         \<and> s_status (subscriptions st' ! i) = mapStripeSubscriptionStatus (sub_status ev)
         \<and> s_failedPaymentCount (subscriptions st' ! i) =
             (if s_status old = PAST_DUE
                 \<and> mapStripeSubscriptionStatus (sub_status ev) = ACTIVE
              then 0 else s_failedPaymentCount old)"
proof -
  from stored have sid: "s_stripeSubscriptionId old = sub_id ev"
    and i: "i < length (subscriptions st)"
    by (simp_all add: stored_position)
  from stored have found:
    "findRow (\<lambda>s. s_stripeSubscriptionId s = sub_id ev) (subscriptions st) = Some (i, old)"
    by (simp add: storedSubscription_def)
  from run found sid i show ?thesis
    by (auto simp add: handleSubscriptionUpdated_def findSubscription_def
        saveSubscription_def Let_def
        simp del: firstItem.simps mapStripeSubscriptionStatus.simps
        split: sum.splits option.splits)
qed

lemma updated_succeeds:
  assumes stored: "storedSubscription st (sub_id ev) = Some (i, old)"
      and healthy: "dbFault e Subscriptions = None"
      and conv: "\<forall>v \<in> set (updateTimestamps ev). convertible e v"
  shows "snd (handleSubscriptionUpdated e ev st) = None"
proof -
  from stored have found:
    "findRow (\<lambda>s. s_stripeSubscriptionId s = sub_id ev) (subscriptions st) = Some (i, old)"
    by (simp add: storedSubscription_def)
  obtain p where p: "periodStartOf e ev = Inr p"
    using periodStartOf_returns [OF conv] by blast
  obtain q where q: "periodEndOf e ev = Inr q"
    using periodEndOf_returns [OF conv] by blast
  from conv have "convertible e (sub_canceled_at ev)" "convertible e (sub_ended_at ev)"
    by (simp_all add: updateTimestamps_def)
  then obtain c d where c: "convertStripeTimestamp e (sub_canceled_at ev) = Inr c"
    and d: "convertStripeTimestamp e (sub_ended_at ev) = Inr d"
    by (blast dest: convertible_cases)
  from found healthy p q c d show ?thesis
    by (simp add: handleSubscriptionUpdated_def findSubscription_def
        saveSubscription_def Let_def
        del: firstItem.simps mapStripeSubscriptionStatus.simps)
qed

text \<open>
  C6: on a stored subscription, an updated event that is processed leaves
  \<^verbatim>\<open>failedPaymentCount\<close> at zero when the row was PAST_DUE and the event's status maps
  to ACTIVE, and at its previous value in every other case; an updated event whose
  handler throws changes nothing. The handler does not throw when the subscription
  repository works and the event's timestamps are convertible.
\<close>

theorem update_resets_failedPaymentCount:
  assumes "storedSubscription st (sub_id ev) = Some (i, old)"
      and "handleSubscriptionUpdated e ev st = (st', r)"
  shows "(r = None \<longrightarrow>
            (\<exists>new. storedSubscription st' (sub_id ev) = Some (i, new)
               \<and> subscriptions st' = (subscriptions st)[i := new]
               \<and> s_failedPaymentCount new =
                   (if s_status old = PAST_DUE
                       \<and> mapStripeSubscriptionStatus (sub_status ev) = ACTIVE
                    then 0 else s_failedPaymentCount old)))
         \<and> (r \<noteq> None \<longrightarrow> st' = st)
         \<and> (dbFault e Subscriptions = None
              \<and> (\<forall>v \<in> set (updateTimestamps ev). convertible e v) \<longrightarrow> r = None)"
proof (intro conjI impI)
  assume "r = None"
  with assms(2) have run: "handleSubscriptionUpdated e ev st = (st', None)" by simp
  define new where "new = subscriptions st' ! i"
  from updated_returns [OF assms(1) run] have
    new: "st' = st\<lparr>subscriptions := (subscriptions st)[i := new]\<rparr>"
         "s_stripeSubscriptionId new = sub_id ev"
         "s_failedPaymentCount new =
            (if s_status old = PAST_DUE
                \<and> mapStripeSubscriptionStatus (sub_status ev) = ACTIVE
             then 0 else s_failedPaymentCount old)"
    by (simp_all add: new_def)
  from stored_after_save [OF assms(1) new(2)] new
  have "storedSubscription st' (sub_id ev) = Some (i, new)
          \<and> subscriptions st' = (subscriptions st)[i := new]
          \<and> s_failedPaymentCount new =
              (if s_status old = PAST_DUE
                  \<and> mapStripeSubscriptionStatus (sub_status ev) = ACTIVE
               then 0 else s_failedPaymentCount old)"
    by simp
  then show "\<exists>new. storedSubscription st' (sub_id ev) = Some (i, new)
          \<and> subscriptions st' = (subscriptions st)[i := new]
          \<and> s_failedPaymentCount new =
              (if s_status old = PAST_DUE
                  \<and> mapStripeSubscriptionStatus (sub_status ev) = ACTIVE
               then 0 else s_failedPaymentCount old)"
    by (rule exI)
next
  assume "r \<noteq> None"
  with assms(2) show "st' = st"
    by (auto dest: updated_throws_unchanged)
next
  assume "dbFault e Subscriptions = None
            \<and> (\<forall>v \<in> set (updateTimestamps ev). convertible e v)"
  then have "snd (handleSubscriptionUpdated e ev st) = None"
    using updated_succeeds [OF assms(1)] by blast
  with assms(2) show "r = None" by simp
qed

theorem update_resets_failedPaymentCount_witness:
  "map s_failedPaymentCount (subscriptions pastDueStore) = [2]
   \<and> map s_failedPaymentCount
        (subscriptions (fst (handleSubscriptionUpdated exampleEnv exampleSubscription
                               pastDueStore))) = [0]"
proof -
  let ?old = "exampleRow\<lparr>s_status := PAST_DUE, s_failedPaymentCount := 2\<rparr>"
  obtain st' r where run:
    "handleSubscriptionUpdated exampleEnv exampleSubscription pastDueStore = (st', r)"
    by (cases "handleSubscriptionUpdated exampleEnv exampleSubscription pastDueStore")
  have stored: "storedSubscription pastDueStore (sub_id exampleSubscription) = Some (0, ?old)"
    by (simp add: storedSubscription_def pastDueStore_def exampleStore_def exampleRow_def
        exampleSubscription_def)
  have ok: "dbFault exampleEnv Subscriptions = None
            \<and> (\<forall>v \<in> set (updateTimestamps exampleSubscription). convertible exampleEnv v)"
    by (simp add: exampleEnv_def updateTimestamps_def exampleSubscription_def
        convertible_def convertStripeTimestamp_def maxTimeValue_def toIntegerOrInfinity_def)
  from update_resets_failedPaymentCount [OF stored run] ok
  obtain new where "subscriptions st' = (subscriptions pastDueStore)[0 := new]"
    and "s_failedPaymentCount new = 0"
    by (auto simp add: exampleSubscription_def)
  with run show ?thesis
    by (simp add: pastDueStore_def exampleStore_def)
qed

section \<open>The fallback chain of the period start\<close>














section \<open>Failed payments and deletion\<close>

text \<open>The payment-failed handler on a stored subscription of a known customer.\<close>

lemma localUser_found:
  "refId customer = Inr customerId \<Longrightarrow> dbFault e Users = None
     \<Longrightarrow> findUser e st customer = Inr (localUser st customerId)"
  by (simp add: findUser_def localUser_def)

lemma markPaymentFailed_stored:
  assumes "truthyRef subscriptionRef" and "refId subscriptionRef = Inr sid"
      and "storedSubscription st sid = Some (i, old)"
      and "dbFault e Subscriptions = None"
  shows "markPaymentFailed e subscriptionRef st =
           (st\<lparr>subscriptions := (subscriptions st)
                 [i := old\<lparr>s_failedPaymentCount := s_failedPaymentCount old + 1,
                          s_status := (if s_failedPaymentCount old + 1 = 1 then PAST_DUE
                                       else s_status old)\<rparr>]\<rparr>,
            None)"
  using assms
  by (simp add: markPaymentFailed_def findSubscription_def storedSubscription_def
      saveSubscription_def Let_def)

text \<open>
  C7, as stated, fails: the invoice refers to the stored subscription \<^verbatim>\<open>sub_1\<close>, but
  its customer is linked to no local user; the handler returns without touching the
  subscription.
\<close>

theorem paymentFailed_unknown_customer_counterexample:
  "storedSubscription unlinkedStore ''sub_1'' = Some (0, exampleRow)
   \<and> inv_subscription exampleInvoice = Id ''sub_1''
   \<and> handleInvoicePaymentFailed exampleEnv exampleInvoice unlinkedStore
       = (unlinkedStore, None)"
  by (simp add: storedSubscription_def unlinkedStore_def exampleStore_def exampleRow_def
      exampleInvoice_def exampleEnv_def handleInvoicePaymentFailed_def findUser_def)

text \<open>
  C7, amended: for an invoice-payment-failed event whose customer is linked to a
  local user and whose invoice refers to a stored subscription, the handler
  increments \<^verbatim>\<open>failedPaymentCount\<close> of that subscription by exactly one and, when the
  count is then 1, sets its status to PAST_DUE whatever it was; at a later failure the
  count is incremented and the status is kept. The failed transaction is recorded
  after that, and the handler returns when the transaction repository works.
\<close>

theorem paymentFailed_counts:
  assumes "truthyRef (inv_customer invoice)" and "refId (inv_customer invoice) = Inr cid"
      and "localUser st cid = Some user"
      and "truthyRef (inv_subscription invoice)" and "refId (inv_subscription invoice) = Inr sid"
      and "storedSubscription st sid = Some (i, old)"
      and "dbFault e Users = None" and "dbFault e Subscriptions = None"
      and "handleInvoicePaymentFailed e invoice st = (st', r)"
  shows "(\<exists>new. storedSubscription st' sid = Some (i, new)
            \<and> subscriptions st' = (subscriptions st)[i := new]
            \<and> s_failedPaymentCount new = s_failedPaymentCount old + 1
            \<and> s_status new = (if s_failedPaymentCount new = 1 then PAST_DUE
                               else s_status old))
         \<and> (dbFault e Transactions = None \<longrightarrow> r = None)"
proof -
  define new where
    "new = old\<lparr>s_failedPaymentCount := s_failedPaymentCount old + 1,
               s_status := (if s_failedPaymentCount old + 1 = 1 then PAST_DUE
                            else s_status old)\<rparr>"
  define st1 where "st1 = st\<lparr>subscriptions := (subscriptions st)[i := new]\<rparr>"
  have user: "findUser e st (inv_customer invoice) = Inr (Some user)"
    using assms(2,3,7) by (simp add: localUser_found)
  have mark: "markPaymentFailed e (inv_subscription invoice) st = (st1, None)"
    using markPaymentFailed_stored [OF assms(4,5,6,8)] by (simp add: st1_def new_def)
  from assms(6) have sid: "s_stripeSubscriptionId new = sid"
    by (simp add: new_def stored_position)
  have stored: "storedSubscription st1 sid = Some (i, new)"
    unfolding st1_def by (rule stored_after_save [OF assms(6) sid])
  from assms(1,9) user mark have subs: "subscriptions st' = subscriptions st1"
    and ret: "dbFault e Transactions = None \<longrightarrow> r = None"
    by (auto simp add: handleInvoicePaymentFailed_def recordTransaction_def Let_def
        split: option.splits)
  from stored subs have "storedSubscription st' sid = Some (i, new)"
    by (simp add: storedSubscription_def)
  moreover from subs have "subscriptions st' = (subscriptions st)[i := new]"
    by (simp add: st1_def)
  moreover have "s_failedPaymentCount new = s_failedPaymentCount old + 1"
    and "s_status new = (if s_failedPaymentCount new = 1 then PAST_DUE else s_status old)"
    by (simp_all add: new_def)
  ultimately have "storedSubscription st' sid = Some (i, new)
            \<and> subscriptions st' = (subscriptions st)[i := new]
            \<and> s_failedPaymentCount new = s_failedPaymentCount old + 1
            \<and> s_status new = (if s_failedPaymentCount new = 1 then PAST_DUE
                               else s_status old)"
    by simp
  then have "\<exists>new. storedSubscription st' sid = Some (i, new)
            \<and> subscriptions st' = (subscriptions st)[i := new]
            \<and> s_failedPaymentCount new = s_failedPaymentCount old + 1
            \<and> s_status new = (if s_failedPaymentCount new = 1 then PAST_DUE
                               else s_status old)"
    by (rule exI)
  with ret show ?thesis by simp
qed

theorem paymentFailed_counts_witness:
  "map (\<lambda>s. (s_failedPaymentCount s, s_status s)) (subscriptions exampleStore)
     = [(0, ACTIVE)]
   \<and> map (\<lambda>s. (s_failedPaymentCount s, s_status s))
        (subscriptions (fst (handleInvoicePaymentFailed exampleEnv exampleInvoice
                               exampleStore)))
     = [(1, PAST_DUE)]
   \<and> snd (handleInvoicePaymentFailed exampleEnv exampleInvoice exampleStore) = None"
proof -
  obtain st' r where run:
    "handleInvoicePaymentFailed exampleEnv exampleInvoice exampleStore = (st', r)"
    by (cases "handleInvoicePaymentFailed exampleEnv exampleInvoice exampleStore")
  have a: "truthyRef (inv_customer exampleInvoice)"
    and b: "refId (inv_customer exampleInvoice) = Inr ''cus_1''"
    and c: "localUser exampleStore ''cus_1''
              = Some \<lparr>u_id = ''user_1'', u_stripeCustomerId = Some ''cus_1''\<rparr>"
    and d: "truthyRef (inv_subscription exampleInvoice)"
    and f: "refId (inv_subscription exampleInvoice) = Inr ''sub_1''"
    and g: "storedSubscription exampleStore ''sub_1'' = Some (0, exampleRow)"
    and h: "dbFault exampleEnv Users = None"
    and k: "dbFault exampleEnv Subscriptions = None"
    by (simp_all add: exampleInvoice_def exampleStore_def exampleRow_def exampleEnv_def
        localUser_def storedSubscription_def)
  have t: "dbFault exampleEnv Transactions = None"
    by (simp add: exampleEnv_def)
  from paymentFailed_counts [OF a b c d f g h k run] t
  obtain new where "subscriptions st' = (subscriptions exampleStore)[0 := new]"
    and "s_failedPaymentCount new = s_failedPaymentCount exampleRow + 1"
    and "s_status new = (if s_failedPaymentCount new = 1 then PAST_DUE
                         else s_status exampleRow)"
    and "r = None"
    by auto
  with run show ?thesis
    by (simp add: exampleStore_def exampleRow_def)
qed

text \<open>The deleted handler on a stored subscription.\<close>

lemma deleted_stored:
  assumes "storedSubscription st (sub_id ev) = Some (i, old)"
      and "dbFault e Subscriptions = None"
  shows "handleSubscriptionDeleted e ev st =
           (st\<lparr>subscriptions := (subscriptions st)
                 [i := old\<lparr>s_status := CANCELED, s_canceledAt := Some (now e),
                          s_endedAt := Some (now e)\<rparr>]\<rparr>,
            None)"
  using assms
  by (simp add: handleSubscriptionDeleted_def findSubscription_def storedSubscription_def
      saveSubscription_def)

text \<open>
  C8, as stated, fails: after the deleted event the row is CANCELED; the updated event
  for the same subscription that follows, with status \<^verbatim>\<open>active\<close>, makes it ACTIVE.
\<close>

theorem late_update_reverts_cancellation_counterexample:
  "map s_status
     (subscriptions (fst (handleSubscriptionDeleted exampleEnv exampleSubscription
                            exampleStore))) = [CANCELED]
   \<and> map s_status
       (subscriptions
          (fst (handleSubscriptionUpdated exampleEnv exampleSubscription
                  (fst (handleSubscriptionDeleted exampleEnv exampleSubscription
                          exampleStore))))) = [ACTIVE]"
  by (simp add: handleSubscriptionDeleted_def handleSubscriptionUpdated_def
      findSubscription_def saveSubscription_def periodStartOf_def periodEndOf_def
      convertStripeTimestamp_def maxTimeValue_def toIntegerOrInfinity_def
      exampleEnv_def exampleStore_def exampleRow_def exampleSubscription_def)

text \<open>
  C8, amended: the deleted event for a stored subscription sets its status to
  CANCELED and both \<^verbatim>\<open>canceledAt\<close> and \<^verbatim>\<open>endedAt\<close> to the processing time. An updated
  event for the same subscription id that is processed afterwards overwrites the
  status with the mapped status of that event: the row stays CANCELED only when that
  status maps to CANCELED.
\<close>

theorem deletion_then_update:
  assumes "storedSubscription st (sub_id ev) = Some (i, old)"
      and "dbFault e Subscriptions = None"
      and "handleSubscriptionDeleted e ev st = (st1, r1)"
      and "sub_id upd = sub_id ev"
      and "handleSubscriptionUpdated e2 upd st1 = (st2, None)"
  shows "r1 = None
         \<and> (\<exists>row. storedSubscription st1 (sub_id ev) = Some (i, row)
               \<and> s_status row = CANCELED
               \<and> s_canceledAt row = Some (now e) \<and> s_endedAt row = Some (now e))
         \<and> (\<exists>row. storedSubscription st2 (sub_id ev) = Some (i, row)
               \<and> s_status row = mapStripeSubscriptionStatus (sub_status upd))"
proof -
  define row where
    "row = old\<lparr>s_status := CANCELED, s_canceledAt := Some (now e),
               s_endedAt := Some (now e)\<rparr>"
  from assms(1) have sid: "s_stripeSubscriptionId row = sub_id ev"
    by (simp add: row_def stored_position)
  from deleted_stored [OF assms(1,2)] assms(3)
  have st1: "st1 = st\<lparr>subscriptions := (subscriptions st)[i := row]\<rparr>" and r1: "r1 = None"
    by (simp_all add: row_def)
  have stored1: "storedSubscription st1 (sub_id ev) = Some (i, row)"
    unfolding st1 by (rule stored_after_save [OF assms(1) sid])
  then have stored1': "storedSubscription st1 (sub_id upd) = Some (i, row)"
    by (simp add: assms(4))
  define new where "new = subscriptions st2 ! i"
  from updated_returns [OF stored1' assms(5)]
  have st2: "st2 = st1\<lparr>subscriptions := (subscriptions st1)[i := new]\<rparr>"
    and sid2: "s_stripeSubscriptionId new = sub_id upd"
    and status: "s_status new = mapStripeSubscriptionStatus (sub_status upd)"
    by (simp_all add: new_def)
  from stored_after_save [OF stored1' sid2] st2
  have stored2: "storedSubscription st2 (sub_id ev) = Some (i, new)"
    by (simp add: assms(4))
  have "storedSubscription st1 (sub_id ev) = Some (i, row) \<and> s_status row = CANCELED
          \<and> s_canceledAt row = Some (now e) \<and> s_endedAt row = Some (now e)"
    using stored1 by (simp add: row_def)
  then have first: "\<exists>row. storedSubscription st1 (sub_id ev) = Some (i, row)
          \<and> s_status row = CANCELED
          \<and> s_canceledAt row = Some (now e) \<and> s_endedAt row = Some (now e)"
    by (rule exI)
  have "storedSubscription st2 (sub_id ev) = Some (i, new)
          \<and> s_status new = mapStripeSubscriptionStatus (sub_status upd)"
    using stored2 status by simp
  then have second: "\<exists>row. storedSubscription st2 (sub_id ev) = Some (i, row)
          \<and> s_status row = mapStripeSubscriptionStatus (sub_status upd)"
    by (rule exI)
  from r1 first second show ?thesis by simp
qed

theorem deletion_then_update_witness:
  "handleSubscriptionDeleted exampleEnv exampleSubscription exampleStore
     = (canceledStore, None)
   \<and> handleSubscriptionUpdated exampleEnv canceledUpdate canceledStore
       = (canceledStore, None)
   \<and> (\<exists>row. storedSubscription canceledStore ''sub_1'' = Some (0, row)
          \<and> s_status row = CANCELED
          \<and> s_canceledAt row = Some (Date 1700000000000)
          \<and> s_endedAt row = Some (Date 1700000000000))"
proof -
  have del: "handleSubscriptionDeleted exampleEnv exampleSubscription exampleStore
               = (canceledStore, None)"
    by (simp add: handleSubscriptionDeleted_def findSubscription_def saveSubscription_def
        canceledStore_def exampleEnv_def exampleStore_def exampleRow_def
        exampleSubscription_def)
  have upd: "handleSubscriptionUpdated exampleEnv canceledUpdate canceledStore
               = (canceledStore, None)"
    by (simp add: handleSubscriptionUpdated_def findSubscription_def saveSubscription_def
        periodStartOf_def periodEndOf_def convertStripeTimestamp_def maxTimeValue_def toIntegerOrInfinity_def
        canceledStore_def canceledUpdate_def undatedSubscription_def exampleEnv_def
        exampleStore_def exampleRow_def exampleSubscription_def)
  have stored: "storedSubscription exampleStore (sub_id exampleSubscription)
                  = Some (0, exampleRow)"
    by (simp add: storedSubscription_def exampleStore_def exampleRow_def
        exampleSubscription_def)
  have healthy: "dbFault exampleEnv Subscriptions = None"
    by (simp add: exampleEnv_def)
  have same: "sub_id canceledUpdate = sub_id exampleSubscription"
    by (simp add: canceledUpdate_def undatedSubscription_def)
  have id: "sub_id exampleSubscription = ''sub_1''"
    and clock: "now exampleEnv = Date 1700000000000"
    by (simp_all add: exampleSubscription_def exampleEnv_def)
  from deletion_then_update [OF stored healthy del same upd] del upd
  show ?thesis
    unfolding id clock by blast
qed

section \<open>Fee and net amount\<close>

lemma feeDetails_settlement:
  "feeDetails e paymentIntentId gross =
     (case settlement e paymentIntentId of
        None \<Rightarrow> (0, gross)
      | Some (f, n) \<Rightarrow> (toMajor f, toMajor n))"
  by (simp add: feeDetails_def settlement_def
      split: sum.splits latest_charge.splits balance_transaction.splits)

lemma invoiceSucceeded_records:
  assumes "truthyRef (inv_customer invoice)"
      and "refId (inv_customer invoice) = Inr cid"
      and "localUser st cid = Some user"
      and "dbFault e Users = None" and "dbFault e Transactions = None"
  shows "\<exists>tx. handleInvoicePaymentSucceeded e invoice st
                 = (st\<lparr>transactions := transactions st @ [tx]\<rparr>, None)
           \<and> tx_amount tx = toMajor (orZero (inv_amount_paid invoice))
           \<and> (tx_stripeFee tx, tx_netAmount tx) =
               (case invoiceSettlement e invoice of
                  None \<Rightarrow> (Some 0, Some (toMajor (orZero (inv_amount_paid invoice))))
                | Some (f, n) \<Rightarrow> (Some (toMajor f), Some (toMajor n)))"
proof -
  have user: "findUser e st (inv_customer invoice) = Inr (Some user)"
    using assms(2,3,4) by (simp add: localUser_found)
  show ?thesis
  proof (cases "invoiceSettlement e invoice")
    case None
    with assms(1,5) user show ?thesis
      by (auto simp add: handleInvoicePaymentSucceeded_def recordTransaction_def
          feeDetails_settlement invoiceSettlement_def Let_def
          split: option.splits)
  next
    case (Some fn)
    with assms(1,5) user show ?thesis
      by (cases fn)
         (auto simp add: handleInvoicePaymentSucceeded_def recordTransaction_def
          feeDetails_settlement invoiceSettlement_def Let_def
          split: option.splits)
  qed
qed

lemma paymentIntentSucceeded_records:
  assumes "truthyRef (pi_customer paymentIntent)"
      and "refId (pi_customer paymentIntent) = Inr cid"
      and "localUser st cid = Some user"
      and "\<not> truthyRef (pi_invoice paymentIntent)"
      and "dbFault e Users = None" and "dbFault e Transactions = None"
  shows "\<exists>tx. handlePaymentIntentSucceeded e paymentIntent st
                 = (st\<lparr>transactions := transactions st @ [tx]\<rparr>, None)
           \<and> tx_amount tx = toMajor (pi_amount paymentIntent)
           \<and> (tx_stripeFee tx, tx_netAmount tx) =
               (case settlement e (pi_id paymentIntent) of
                  None \<Rightarrow> (Some 0, Some (toMajor (pi_amount paymentIntent)))
                | Some (f, n) \<Rightarrow> (Some (toMajor f), Some (toMajor n)))"
proof -
  have user: "findUser e st (pi_customer paymentIntent) = Inr (Some user)"
    using assms(2,3,5) by (simp add: localUser_found)
  show ?thesis
  proof (cases "settlement e (pi_id paymentIntent)")
    case None
    with assms(1,4,6) user show ?thesis
      by (auto simp add: handlePaymentIntentSucceeded_def recordTransaction_def
          feeDetails_settlement Let_def)
  next
    case (Some fn)
    with assms(1,4,6) user show ?thesis
      by (cases fn)
         (auto simp add: handlePaymentIntentSucceeded_def recordTransaction_def
          feeDetails_settlement Let_def)
  qed
qed

text \<open>
  C9: the invoice-payment-succeeded handler, and the payment-intent-succeeded handler
  on a payment intent without an invoice, record for a known customer one transaction
  whose fee and net amount are those of the settlement object, converted to major
  units, when it is available, and zero and the gross amount when it is not.
\<close>

theorem fee_and_net_resolution:
  "(truthyRef (inv_customer invoice) \<and> refId (inv_customer invoice) = Inr cid
      \<and> localUser st cid = Some user
      \<and> dbFault e Users = None \<and> dbFault e Transactions = None
    \<longrightarrow> (\<exists>tx. handleInvoicePaymentSucceeded e invoice st
                   = (st\<lparr>transactions := transactions st @ [tx]\<rparr>, None)
             \<and> tx_amount tx = toMajor (orZero (inv_amount_paid invoice))
             \<and> (tx_stripeFee tx, tx_netAmount tx) =
                 (case invoiceSettlement e invoice of
                    None \<Rightarrow> (Some 0, Some (toMajor (orZero (inv_amount_paid invoice))))
                  | Some (f, n) \<Rightarrow> (Some (toMajor f), Some (toMajor n)))))
   \<and> (truthyRef (pi_customer paymentIntent)
        \<and> refId (pi_customer paymentIntent) = Inr cid'
        \<and> localUser st cid' = Some user'
        \<and> \<not> truthyRef (pi_invoice paymentIntent)
        \<and> dbFault e Users = None \<and> dbFault e Transactions = None
      \<longrightarrow> (\<exists>tx. handlePaymentIntentSucceeded e paymentIntent st
                     = (st\<lparr>transactions := transactions st @ [tx]\<rparr>, None)
               \<and> tx_amount tx = toMajor (pi_amount paymentIntent)
               \<and> (tx_stripeFee tx, tx_netAmount tx) =
                   (case settlement e (pi_id paymentIntent) of
                      None \<Rightarrow> (Some 0, Some (toMajor (pi_amount paymentIntent)))
                    | Some (f, n) \<Rightarrow> (Some (toMajor f), Some (toMajor n)))))"
  using invoiceSucceeded_records [of invoice cid st user e]
    paymentIntentSucceeded_records [of paymentIntent cid' st user' e]
  by blast

theorem fee_and_net_resolution_witness:
  "map (\<lambda>tx. (tx_amount tx, tx_stripeFee tx, tx_netAmount tx))
     (transactions (fst (handleInvoicePaymentSucceeded exampleEnv exampleInvoice
                           exampleStore)))
     = [(50, Some 0, Some 50)]
   \<and> map (\<lambda>tx. (tx_amount tx, tx_stripeFee tx, tx_netAmount tx))
       (transactions (fst (handlePaymentIntentSucceeded settledEnv plainPaymentIntent
                             exampleStore)))
     = [(50, Some (7 / 4), Some (193 / 4))]"
proof -
  let ?user = "\<lparr>u_id = ''user_1'', u_stripeCustomerId = Some ''cus_1''\<rparr>"
  have inv: "truthyRef (inv_customer exampleInvoice)
      \<and> refId (inv_customer exampleInvoice) = Inr ''cus_1''
      \<and> localUser exampleStore ''cus_1'' = Some ?user
      \<and> dbFault exampleEnv Users = None \<and> dbFault exampleEnv Transactions = None"
    by (simp add: exampleInvoice_def exampleStore_def exampleEnv_def localUser_def)
  have pi: "truthyRef (pi_customer plainPaymentIntent)
      \<and> refId (pi_customer plainPaymentIntent) = Inr ''cus_1''
      \<and> localUser exampleStore ''cus_1'' = Some ?user
      \<and> \<not> truthyRef (pi_invoice plainPaymentIntent)
      \<and> dbFault settledEnv Users = None \<and> dbFault settledEnv Transactions = None"
    by (simp add: plainPaymentIntent_def invoicedPaymentIntent_def exampleStore_def
        settledEnv_def exampleEnv_def localUser_def)
  have none: "invoiceSettlement exampleEnv exampleInvoice = None"
    by (simp add: invoiceSettlement_def settlement_def exampleEnv_def exampleInvoice_def)
  have some: "settlement settledEnv (pi_id plainPaymentIntent) = Some (175, 4825)"
    by (simp add: settlement_def settledEnv_def exampleEnv_def)
  have amounts: "toMajor (orZero (inv_amount_paid exampleInvoice)) = 50"
    "toMajor (pi_amount plainPaymentIntent) = 50"
    "toMajor 175 = 7 / 4" "toMajor 4825 = 193 / 4"
    by (simp_all add: toMajor_def exampleInvoice_def plainPaymentIntent_def
        invoicedPaymentIntent_def)
  have empty: "transactions exampleStore = []"
    by (simp add: exampleStore_def)
  from fee_and_net_resolution
         [of exampleInvoice "''cus_1''" exampleStore ?user exampleEnv
             plainPaymentIntent "''cus_1''" ?user, THEN conjunct1, THEN mp, OF inv]
  obtain tx where "handleInvoicePaymentSucceeded exampleEnv exampleInvoice exampleStore
                     = (exampleStore\<lparr>transactions := transactions exampleStore @ [tx]\<rparr>, None)"
    and "tx_amount tx = 50" and "tx_stripeFee tx = Some 0" and "tx_netAmount tx = Some 50"
    by (auto simp add: none amounts)
  then have first: "map (\<lambda>tx. (tx_amount tx, tx_stripeFee tx, tx_netAmount tx))
     (transactions (fst (handleInvoicePaymentSucceeded exampleEnv exampleInvoice
                           exampleStore))) = [(50, Some 0, Some 50)]"
    by (simp add: empty)
  from fee_and_net_resolution
         [of exampleInvoice "''cus_1''" exampleStore ?user settledEnv
             plainPaymentIntent "''cus_1''" ?user, THEN conjunct2, THEN mp, OF pi]
  obtain tx' where "handlePaymentIntentSucceeded settledEnv plainPaymentIntent exampleStore
                     = (exampleStore\<lparr>transactions := transactions exampleStore @ [tx']\<rparr>, None)"
    and "tx_amount tx' = 50" and "tx_stripeFee tx' = Some (7 / 4)"
    and "tx_netAmount tx' = Some (193 / 4)"
    by (auto simp add: some amounts)
  then have second: "map (\<lambda>tx. (tx_amount tx, tx_stripeFee tx, tx_netAmount tx))
       (transactions (fst (handlePaymentIntentSucceeded settledEnv plainPaymentIntent
                             exampleStore))) = [(50, Some (7 / 4), Some (193 / 4))]"
    by (simp add: empty)
  from first second show ?thesis by simp
qed

text \<open>
  C10: a payment-intent-succeeded event whose payment intent carries an invoice
  reference (an id or an expanded invoice) records nothing: the handler leaves every
  table as it was, also when the customer's local user is found, and then returns
  without error.
\<close>

theorem invoiced_paymentIntent_not_recorded:
  assumes "truthyRef (pi_invoice paymentIntent)"
  shows "fst (handlePaymentIntentSucceeded e paymentIntent st) = st
         \<and> (findUser e st (pi_customer paymentIntent) = Inr (Some user)
              \<longrightarrow> handlePaymentIntentSucceeded e paymentIntent st = (st, None))"
  using assms
  by (simp add: handlePaymentIntentSucceeded_def split: sum.splits option.splits)

theorem invoiced_paymentIntent_not_recorded_witness:
  "truthyRef (pi_invoice invoicedPaymentIntent)
   \<and> localUser exampleStore ''cus_1'' \<noteq> None
   \<and> transactions (fst (handlePaymentIntentSucceeded exampleEnv invoicedPaymentIntent
                           exampleStore)) = []"
proof -
  have a: "truthyRef (pi_invoice invoicedPaymentIntent)"
    by (simp add: invoicedPaymentIntent_def)
  have b: "localUser exampleStore ''cus_1'' \<noteq> None"
    by (simp add: localUser_def exampleStore_def)
  have c: "transactions exampleStore = []"
    by (simp add: exampleStore_def)
  from invoiced_paymentIntent_not_recorded [OF a, of exampleEnv exampleStore] a b c
  show ?thesis by simp
qed

section \<open>The dispatcher and the ledger\<close>

lemma updateWebhookEventStatus_tables:
  "users (fst (updateWebhookEventStatus e i s m st)) = users st
   \<and> paymentMethods (fst (updateWebhookEventStatus e i s m st)) = paymentMethods st
   \<and> transactions (fst (updateWebhookEventStatus e i s m st)) = transactions st
   \<and> subscriptions (fst (updateWebhookEventStatus e i s m st)) = subscriptions st"
  by (simp add: updateWebhookEventStatus_def Let_def split: option.splits)

lemma updateWebhookEventStatus_returns:
  "dbFault e WebhookEvents = None \<Longrightarrow> snd (updateWebhookEventStatus e i s m st) = None"
  by (simp add: updateWebhookEventStatus_def Let_def)

lemma catchBlock_rethrows: "snd (catchBlock e err st) = Some err"
  by (simp add: catchBlock_def Let_def)

lemma catchBlock_without_event_id:
  "\<not> includesStr (message err) ''event.id'' \<Longrightarrow> catchBlock e err st = (st, Some err)"
  by (simp add: catchBlock_def)

lemma catchBlock_duplicateKey: "catchBlock e duplicateKey st = (st, Some duplicateKey)"
  by (rule catchBlock_without_event_id) (simp add: duplicateKey_def startsWith_def)

text \<open>
  C1, as stated, fails. The payment-failed event \<^verbatim>\<open>evt_1\<close> is delivered once: its
  ledger row is COMPLETED, the subscription has one failed payment and one transaction
  is recorded. Delivered again, it reaches the handler again where the ledger accepts
  a second row: two failed payments, two transactions. Where the ledger has a unique
  event id, the second delivery is not a success but the duplicate-key error.
\<close>

theorem redelivery_counterexample:
  "map we_processingStatus (webhookEvents deliveredStore) = [COMPLETED]
   \<and> map s_failedPaymentCount (subscriptions deliveredStore) = [1]
   \<and> length (transactions deliveredStore) = 1
   \<and> map s_failedPaymentCount
       (subscriptions (fst (handleWebhookEvent exampleEnv (Inr exampleEvent)
                              deliveredStore))) = [2]
   \<and> length (transactions (fst (handleWebhookEvent exampleEnv (Inr exampleEvent)
                                   deliveredStore))) = 2
   \<and> snd (handleWebhookEvent uniqueEnv (Inr exampleEvent) deliveredStore)
       = Some duplicateKey"
proof -
  have delivered:
    "deliveredStore =
       \<lparr>users = [\<lparr>u_id = ''user_1'', u_stripeCustomerId = Some ''cus_1''\<rparr>],
        paymentMethods = [],
        transactions =
          [\<lparr>tx_userId = ''user_1'', tx_stripePaymentIntentId = Id ''pi_1'',
            tx_transactionType = SUBSCRIPTION, tx_amount = 50, tx_currency = ''USD'',
            tx_status = TS_FAILED, tx_failureReason = Some ''Unknown failure reason'',
            tx_stripeFee = None, tx_netAmount = None, tx_processedAt = None\<rparr>],
        webhookEvents =
          [\<lparr>we_stripeEventId = ''evt_1'', we_eventType = ''invoice.payment_failed'',
            we_processingStatus = COMPLETED, we_retryCount = 0,
            we_processedAt = Some (Date 1700000000000), we_errorMessage = None\<rparr>],
        subscriptions = [exampleRow\<lparr>s_failedPaymentCount := 1, s_status := PAST_DUE\<rparr>]\<rparr>"
    by (simp add: deliveredStore_def handleWebhookEvent_def logWebhookEvent_def Let_def
        updateWebhookEventStatus_def updateRows_def handleInvoicePaymentFailed_def
        findUser_def markPaymentFailed_def findSubscription_def saveSubscription_def
        recordTransaction_def failureReasonOf_def toMajor_def toUpperCase_def
        upperChar_def exampleEnv_def exampleStore_def exampleRow_def exampleInvoice_def
        exampleEvent_def)
  have again:
    "map s_failedPaymentCount
       (subscriptions (fst (handleWebhookEvent exampleEnv (Inr exampleEvent)
                              deliveredStore))) = [2]
     \<and> length (transactions (fst (handleWebhookEvent exampleEnv (Inr exampleEvent)
                                     deliveredStore))) = 2"
    unfolding delivered
    by (simp add: handleWebhookEvent_def logWebhookEvent_def Let_def
        updateWebhookEventStatus_def updateRows_def handleInvoicePaymentFailed_def
        findUser_def markPaymentFailed_def findSubscription_def saveSubscription_def
        recordTransaction_def failureReasonOf_def toMajor_def toUpperCase_def
        upperChar_def exampleEnv_def exampleRow_def exampleInvoice_def exampleEvent_def)
  have unique:
    "snd (handleWebhookEvent uniqueEnv (Inr exampleEvent) deliveredStore)
       = Some duplicateKey"
    unfolding delivered
    by (simp add: handleWebhookEvent_def logWebhookEvent_def Let_def
        catchBlock_duplicateKey uniqueEnv_def exampleEnv_def exampleEvent_def)
  from again unique show ?thesis
    by (simp add: delivered exampleRow_def)
qed

text \<open>
  C1, amended: with ledger logging enabled, processing never reads the status of an
  existing ledger row. When the event id already has a row (COMPLETED or not) and the
  ledger rejects a second row for the id, processing stops at the insert: no handler
  is invoked, nothing is changed, and the duplicate-key error is thrown to the caller.
  When the ledger accepts the second row, the event is dispatched to its handler
  again, on the same users, payment methods, transactions and subscriptions, and the
  outcome is that of the handler.
\<close>

theorem redelivery_is_not_suppressed:
  assumes "loggingEnabled e" and "dbFault e WebhookEvents = None"
      and "ev_id ev \<in> set (map we_stripeEventId (webhookEvents st))"
  shows "(uniqueStripeEventId e
            \<longrightarrow> handleWebhookEvent e (Inr ev) st = (st, Some duplicateKey))
         \<and> (\<not> uniqueStripeEventId e
            \<longrightarrow> (\<exists>st2. users st2 = users st \<and> paymentMethods st2 = paymentMethods st
                    \<and> transactions st2 = transactions st
                    \<and> subscriptions st2 = subscriptions st
                    \<and> handleWebhookEvent e (Inr ev) st =
                        (case dispatch e (ev_data ev) st2 of
                           (st3, None) \<Rightarrow>
                             updateWebhookEventStatus e (ev_id ev) COMPLETED None st3
                         | (st3, Some err) \<Rightarrow> catchBlock e err st3)))"
proof (intro conjI impI)
  assume "uniqueStripeEventId e"
  with assms show "handleWebhookEvent e (Inr ev) st = (st, Some duplicateKey)"
    by (simp add: handleWebhookEvent_def logWebhookEvent_def Let_def
        catchBlock_duplicateKey)
next
  assume accepts: "\<not> uniqueStripeEventId e"
  define row where
    "row = \<lparr>we_stripeEventId = ev_id ev, we_eventType = eventType (ev_data ev),
            we_processingStatus = PENDING, we_retryCount = 0,
            we_processedAt = None, we_errorMessage = None\<rparr>"
  define st1 where "st1 = st\<lparr>webhookEvents := webhookEvents st @ [row]\<rparr>"
  define st2 where "st2 = fst (updateWebhookEventStatus e (ev_id ev) PENDING None st1)"
  have logged: "logWebhookEvent e (ev_id ev) (eventType (ev_data ev)) st
                  = (st1, Inr (Some row))"
    using assms(1,2) accepts by (simp add: logWebhookEvent_def st1_def row_def Let_def)
  have pending: "updateWebhookEventStatus e (ev_id ev) PENDING None st1 = (st2, None)"
    using updateWebhookEventStatus_returns [OF assms(2), of "ev_id ev" PENDING None st1]
    by (simp add: st2_def prod_eq_iff)
  have completed: "\<And>st3. \<exists>st4. updateWebhookEventStatus e (ev_id ev) COMPLETED None st3
                     = (st4, None)"
    using updateWebhookEventStatus_returns [OF assms(2), of "ev_id ev" COMPLETED None]
    by (simp add: prod_eq_iff)
  have tables: "users st2 = users st \<and> paymentMethods st2 = paymentMethods st
                  \<and> transactions st2 = transactions st
                  \<and> subscriptions st2 = subscriptions st"
    using updateWebhookEventStatus_tables [of e "ev_id ev" PENDING None st1]
    by (simp add: st2_def st1_def)
  have run: "handleWebhookEvent e (Inr ev) st =
               (case dispatch e (ev_data ev) st2 of
                  (st3, None) \<Rightarrow> updateWebhookEventStatus e (ev_id ev) COMPLETED None st3
                | (st3, Some err) \<Rightarrow> catchBlock e err st3)"
  proof (cases "dispatch e (ev_data ev) st2")
    case (Pair st3 r)
    show ?thesis
    proof (cases r)
      case None
      from completed [of st3] obtain st4 where
        "updateWebhookEventStatus e (ev_id ev) COMPLETED None st3 = (st4, None)"
        by blast
      with None Pair logged pending show ?thesis
        by (simp add: handleWebhookEvent_def)
    next
      case (Some err)
      with Pair logged pending show ?thesis
        by (simp add: handleWebhookEvent_def)
    qed
  qed
  from tables run
  have "users st2 = users st \<and> paymentMethods st2 = paymentMethods st
          \<and> transactions st2 = transactions st \<and> subscriptions st2 = subscriptions st
          \<and> handleWebhookEvent e (Inr ev) st =
              (case dispatch e (ev_data ev) st2 of
                 (st3, None) \<Rightarrow> updateWebhookEventStatus e (ev_id ev) COMPLETED None st3
               | (st3, Some err) \<Rightarrow> catchBlock e err st3)"
    by simp
  then show "\<exists>st2. users st2 = users st \<and> paymentMethods st2 = paymentMethods st
          \<and> transactions st2 = transactions st \<and> subscriptions st2 = subscriptions st
          \<and> handleWebhookEvent e (Inr ev) st =
              (case dispatch e (ev_data ev) st2 of
                 (st3, None) \<Rightarrow> updateWebhookEventStatus e (ev_id ev) COMPLETED None st3
               | (st3, Some err) \<Rightarrow> catchBlock e err st3)"
    by (rule exI)
qed

theorem redelivery_is_not_suppressed_witness:
  "ev_id exampleEvent \<in> set (map we_stripeEventId (webhookEvents deliveredStore))
   \<and> map we_processingStatus (webhookEvents deliveredStore) = [COMPLETED]
   \<and> handleWebhookEvent uniqueEnv (Inr exampleEvent) deliveredStore
       = (deliveredStore, Some duplicateKey)
   \<and> (\<exists>st2. subscriptions st2 = subscriptions deliveredStore
          \<and> handleWebhookEvent exampleEnv (Inr exampleEvent) deliveredStore =
              (case handleInvoicePaymentFailed exampleEnv exampleInvoice st2 of
                 (st3, None) \<Rightarrow> updateWebhookEventStatus exampleEnv ''evt_1'' COMPLETED None st3
               | (st3, Some err) \<Rightarrow> catchBlock exampleEnv err st3))"
proof -
  have rows: "map we_stripeEventId (webhookEvents deliveredStore) = [''evt_1'']
              \<and> map we_processingStatus (webhookEvents deliveredStore) = [COMPLETED]"
    by (simp add: deliveredStore_def handleWebhookEvent_def logWebhookEvent_def Let_def
        updateWebhookEventStatus_def updateRows_def handleInvoicePaymentFailed_def
        findUser_def markPaymentFailed_def findSubscription_def saveSubscription_def
        recordTransaction_def failureReasonOf_def toMajor_def toUpperCase_def
        upperChar_def exampleEnv_def exampleStore_def exampleRow_def exampleInvoice_def
        exampleEvent_def)
  then have present:
    "ev_id exampleEvent \<in> set (map we_stripeEventId (webhookEvents deliveredStore))"
    by (simp add: exampleEvent_def)
  have enabled: "loggingEnabled uniqueEnv" and healthy: "dbFault uniqueEnv WebhookEvents = None"
    and unique: "uniqueStripeEventId uniqueEnv"
    by (simp_all add: uniqueEnv_def exampleEnv_def)
  have enabled': "loggingEnabled exampleEnv"
    and healthy': "dbFault exampleEnv WebhookEvents = None"
    and accepts: "\<not> uniqueStripeEventId exampleEnv"
    by (simp_all add: exampleEnv_def)
  have event: "ev_id exampleEvent = ''evt_1''"
    "dispatch exampleEnv (ev_data exampleEvent)
       = handleInvoicePaymentFailed exampleEnv exampleInvoice"
    by (simp_all add: exampleEvent_def fun_eq_iff)
  from redelivery_is_not_suppressed [OF enabled healthy present] unique
  have first: "handleWebhookEvent uniqueEnv (Inr exampleEvent) deliveredStore
                 = (deliveredStore, Some duplicateKey)"
    by simp
  from redelivery_is_not_suppressed [OF enabled' healthy' present] accepts
  have second: "\<exists>st2. subscriptions st2 = subscriptions deliveredStore
          \<and> handleWebhookEvent exampleEnv (Inr exampleEvent) deliveredStore =
              (case handleInvoicePaymentFailed exampleEnv exampleInvoice st2 of
                 (st3, None) \<Rightarrow> updateWebhookEventStatus exampleEnv ''evt_1'' COMPLETED None st3
               | (st3, Some err) \<Rightarrow> catchBlock exampleEnv err st3)"
    unfolding event by blast
  from rows present first second show ?thesis by simp
qed

text \<open>
  C2 on the code: the payment-failed event \<^verbatim>\<open>evt_1\<close> is delivered while the
  transaction repository is failing. The handler throws; the error reaches the
  caller, but its message does not contain the event id, so the \<^verbatim>\<open>catch\<close> block
  finds no id to mark: the ledger row is left PENDING with \<^verbatim>\<open>retryCount\<close> 0 and no
  \<^verbatim>\<open>errorMessage\<close>.
\<close>

theorem failed_handler_leaves_row_pending:
  "snd (handleWebhookEvent failingEnv (Inr exampleEvent) exampleStore)
     = Some (Error ''connection lost'')
   \<and> webhookEvents (fst (handleWebhookEvent failingEnv (Inr exampleEvent) exampleStore))
       = [\<lparr>we_stripeEventId = ''evt_1'', we_eventType = ''invoice.payment_failed'',
           we_processingStatus = PENDING, we_retryCount = 0,
           we_processedAt = None, we_errorMessage = None\<rparr>]"
  by (simp add: handleWebhookEvent_def logWebhookEvent_def Let_def
      updateWebhookEventStatus_def updateRows_def handleInvoicePaymentFailed_def
      findUser_def markPaymentFailed_def findSubscription_def saveSubscription_def
      recordTransaction_def catchBlock_def startsWith_def
      failingEnv_def exampleEnv_def exampleStore_def exampleRow_def exampleInvoice_def
      exampleEvent_def)

section \<open>Amounts and currencies of recorded transactions\<close>

lemma recordTransaction_stores:
  "dbFault e Transactions = None \<Longrightarrow>
     map (\<lambda>tx. (tx_amount tx, tx_currency tx, tx_status tx))
       (transactions
          (fst (recordTransaction e userId ref type amount currency status reason f n
                  processedAt st)))
     = map (\<lambda>tx. (tx_amount tx, tx_currency tx, tx_status tx)) (transactions st)
       @ [(amount, toUpperCase currency, status)]"
  by (simp add: recordTransaction_def)

text \<open>
  The end-to-end example of the specification holds: the payment-failed invoice of
  5000 cents in \<^verbatim>\<open>usd\<close> is recorded as 50 \<^verbatim>\<open>USD\<close>, FAILED, and \<^verbatim>\<open>sub_1\<close> is PAST_DUE
  with one failed payment.
\<close>

lemma invoicePaymentFailed_example:
  "map (\<lambda>tx. (tx_amount tx, tx_currency tx, tx_status tx))
     (transactions (fst (handleInvoicePaymentFailed exampleEnv exampleInvoice exampleStore)))
     = [(50, ''USD'', TS_FAILED)]
   \<and> map (\<lambda>s. (s_failedPaymentCount s, s_status s))
       (subscriptions (fst (handleInvoicePaymentFailed exampleEnv exampleInvoice
                              exampleStore)))
     = [(1, PAST_DUE)]"
  by (simp add: handleInvoicePaymentFailed_def findUser_def markPaymentFailed_def
      findSubscription_def saveSubscription_def recordTransaction_def toMajor_def
      toUpperCase_def upperChar_def
      exampleEnv_def exampleStore_def exampleRow_def exampleInvoice_def)

text \<open>
  C3 on the code: the checkout-session-completed handler passes
  \<^verbatim>\<open>session.amount_total\<close> to the recorder as it is. A session of 5000 cents in
  \<^verbatim>\<open>usd\<close> is recorded with amount 5000, not 50; the currency is upper-cased.
\<close>

theorem checkout_amount_not_converted:
  "map (\<lambda>tx. (tx_amount tx, tx_currency tx, tx_status tx))
     (transactions (fst (handleCheckoutSessionCompleted exampleEnv exampleSession
                           exampleStore)))
     = [(5000, ''USD'', TS_COMPLETED)]"
  by (simp add: handleCheckoutSessionCompleted_def findUser_def recordTransaction_def
      orRef_def orElse_def toUpperCase_def upperChar_def
      exampleEnv_def exampleStore_def exampleSession_def)

end
